theory Spec2Isabelle
  imports Main "HOL-Library.Word" "HOL-Library.AList"
begin

section \<open>Go values, errors and formatting\<close>

text \<open>
  Go's \<open>int\<close> is the 64-bit signed integer of the platforms the provider is built for;
  \<open>int32\<close> is the wire type of the port fields. Both are words read with \<open>sint\<close>.
\<close>

type_synonym go_int = "64 word"
type_synonym int32 = "32 word"
type_synonym float64 = "64 word"

text \<open>
  An \<open>error\<close> value: \<open>errors.New msg\<close> is \<open>ErrorNew msg\<close>; \<open>fmt.Errorf\<close> with a
  format that ends in \<open>%w\<close> is \<open>Errorf prefix e\<close>, where \<open>prefix\<close> is the formatted text
  before the wrapped error \<open>e\<close>.
\<close>

datatype error = ErrorNew string | Errorf string error

fun Error :: "error \<Rightarrow> string" where
  "Error (ErrorNew msg) = msg"
| "Error (Errorf prefix e) = prefix @ Error e"

fun errors_Is :: "error \<Rightarrow> error \<Rightarrow> bool" where
  "errors_Is (ErrorNew msg) target = (ErrorNew msg = target)"
| "errors_Is (Errorf prefix e) target = (Errorf prefix e = target \<or> errors_Is e target)"

text \<open>The verb \<open>%d\<close> of \<open>fmt\<close>: decimal digits, with a minus sign for a negative number.\<close>

definition digit_char :: "nat \<Rightarrow> char" where
  "digit_char d = ''0123456789'' ! d"

fun fmt_nat :: "nat \<Rightarrow> string" where
  "fmt_nat n = (if n < 10 then [digit_char n] else fmt_nat (n div 10) @ [digit_char (n mod 10)])"

declare fmt_nat.simps [simp del]

definition fmt_d :: "int \<Rightarrow> string" where
  "fmt_d i = (if i < 0 then CHR ''-'' # fmt_nat (nat (- i)) else fmt_nat (nat i))"

text \<open>
  The dynamic values a \<open>map[string]any\<close> of the decoder holds. A Go map is an
  association list with distinct keys, looked up with \<open>map_of\<close>; the order of the list
  is the order in which \<open>range\<close> happens to visit the entries.
\<close>

datatype gval =
    GNil
  | GString string
  | GBool bool
  | GInt go_int
  | GFloat float64
  | GSlice "gval list"
  | GMap "(string \<times> gval) list"

type_synonym gmap = "(string \<times> gval) list"

section \<open>Extraction helpers (utils.go)\<close>

definition getString :: "gmap \<Rightarrow> string \<Rightarrow> string" where
  "getString m key = (case map_of m key of Some (GString s) \<Rightarrow> s | _ \<Rightarrow> [])"

definition getInt :: "gmap \<Rightarrow> string \<Rightarrow> go_int" where
  "getInt m key = (case map_of m key of Some (GInt i) \<Rightarrow> i | _ \<Rightarrow> 0)"

definition getBool :: "gmap \<Rightarrow> string \<Rightarrow> bool" where
  "getBool m key = (case map_of m key of Some (GBool b) \<Rightarrow> b | _ \<Rightarrow> False)"

fun strings_of :: "gval list \<Rightarrow> string list" where
  "strings_of [] = []"
| "strings_of (GString s # items) = s # strings_of items"
| "strings_of (_ # items) = strings_of items"

fun maps_of :: "gval list \<Rightarrow> gmap list" where
  "maps_of [] = []"
| "maps_of (GMap itemMap # items) = itemMap # maps_of items"
| "maps_of (_ # items) = maps_of items"

fun string_entries :: "gmap \<Rightarrow> (string \<times> string) list" where
  "string_entries [] = []"
| "string_entries ((k, GString s) # srcMap) = (k, s) # string_entries srcMap"
| "string_entries (_ # srcMap) = string_entries srcMap"

text \<open>The three helpers below return \<open>nil\<close> (\<open>None\<close>) or a non-nil, possibly empty, result.\<close>

definition getStringSlice :: "gmap \<Rightarrow> string \<Rightarrow> string list option" where
  "getStringSlice m key = (case map_of m key of Some (GSlice items) \<Rightarrow> Some (strings_of items) | _ \<Rightarrow> None)"

definition getMapSlice :: "gmap \<Rightarrow> string \<Rightarrow> gmap list option" where
  "getMapSlice m key = (case map_of m key of Some (GSlice items) \<Rightarrow> Some (maps_of items) | _ \<Rightarrow> None)"

definition getStringMap :: "gmap \<Rightarrow> string \<Rightarrow> (string \<times> string) list option" where
  "getStringMap m key = (case map_of m key of Some (GMap srcMap) \<Rightarrow> Some (string_entries srcMap) | _ \<Rightarrow> None)"

text \<open>Ranging over a nil slice visits nothing.\<close>

definition range_of :: "'a list option \<Rightarrow> 'a list" where
  "range_of s = (case s of None \<Rightarrow> [] | Some xs \<Rightarrow> xs)"

section \<open>The cluster specification (the fields of v1alpha4 that the flattener sets)\<close>

text \<open>
  The enum types of v1alpha4 are string types (\<open>type NodeRole string\<close> and so on), so
  their zero value is the empty string.
\<close>

type_synonym NodeRole = string
type_synonym MountPropagation = string
type_synonym PortMappingProtocol = string
type_synonym ClusterIPFamily = string
type_synonym ProxyMode = string

text \<open>Modelled from the spec: the constants of the kind library's v1alpha4 package, which
  is not part of the repository; the values are those of the allow-lists in the data model
  and of the literals the repository's tests compare the constants with.\<close>

definition ControlPlaneRole :: NodeRole where "ControlPlaneRole = ''control-plane''"
definition WorkerRole :: NodeRole where "WorkerRole = ''worker''"
definition MountPropagationNone :: MountPropagation where "MountPropagationNone = ''None''"
definition MountPropagationHostToContainer :: MountPropagation where
  "MountPropagationHostToContainer = ''HostToContainer''"
definition MountPropagationBidirectional :: MountPropagation where
  "MountPropagationBidirectional = ''Bidirectional''"
definition PortMappingProtocolTCP :: PortMappingProtocol where "PortMappingProtocolTCP = ''TCP''"
definition PortMappingProtocolUDP :: PortMappingProtocol where "PortMappingProtocolUDP = ''UDP''"
definition PortMappingProtocolSCTP :: PortMappingProtocol where "PortMappingProtocolSCTP = ''SCTP''"
definition IPv4Family :: ClusterIPFamily where "IPv4Family = ''ipv4''"
definition IPv6Family :: ClusterIPFamily where "IPv6Family = ''ipv6''"
definition DualStackFamily :: ClusterIPFamily where "DualStackFamily = ''dual''"
definition IPTablesProxyMode :: ProxyMode where "IPTablesProxyMode = ''iptables''"
definition IPVSProxyMode :: ProxyMode where "IPVSProxyMode = ''ipvs''"

definition kubeProxyModeNone :: string where "kubeProxyModeNone = ''none''"

record Mount =
  ContainerPath :: string
  HostPath :: string
  Readonly :: bool
  SelinuxRelabel :: bool
  Propagation :: MountPropagation

record PortMapping =
  ContainerPort :: int32
  HostPort :: int32
  ListenAddress :: string
  Protocol :: PortMappingProtocol

record Node =
  Role :: NodeRole
  Image :: string
  Labels :: "(string \<times> string) list option"
  ExtraMounts :: "Mount list"
  ExtraPortMappings :: "PortMapping list"
  KubeadmConfigPatches :: "string list option"

record Networking =
  IPFamily :: ClusterIPFamily
  APIServerPort :: int32
  APIServerAddress :: string
  PodSubnet :: string
  ServiceSubnet :: string
  DisableDefaultCNI :: bool
  KubeProxyMode :: ProxyMode
  DNSSearch :: "string list option"

record Cluster =
  Kind :: string
  APIVersion :: string
  Nodes :: "Node list"
  Networking :: Networking
  ContainerdConfigPatches :: "string list option"
  RuntimeConfig :: "(string \<times> string) list option"
  FeatureGates :: "(string \<times> bool) list option"

text \<open>The zero values of the structs.\<close>

definition zero_Mount :: Mount where
  "zero_Mount = \<lparr>ContainerPath = [], HostPath = [], Readonly = False, SelinuxRelabel = False,
     Propagation = []\<rparr>"

definition zero_PortMapping :: PortMapping where
  "zero_PortMapping = \<lparr>ContainerPort = 0, HostPort = 0, ListenAddress = [], Protocol = []\<rparr>"

definition zero_Node :: Node where
  "zero_Node = \<lparr>Role = [], Image = [], Labels = None, ExtraMounts = [], ExtraPortMappings = [],
     KubeadmConfigPatches = None\<rparr>"

definition zero_Networking :: Networking where
  "zero_Networking = \<lparr>IPFamily = [], APIServerPort = 0, APIServerAddress = [], PodSubnet = [],
     ServiceSubnet = [], DisableDefaultCNI = False, KubeProxyMode = [], DNSSearch = None\<rparr>"

definition zero_Cluster :: Cluster where
  "zero_Cluster = \<lparr>Kind = [], APIVersion = [], Nodes = [], Networking = zero_Networking,
     ContainerdConfigPatches = None, RuntimeConfig = None, FeatureGates = None\<rparr>"

section \<open>The configuration normalizer\<close>

definition ErrPortOutOfRange :: error where
  "ErrPortOutOfRange = ErrorNew ''port value out of valid range''"

definition MinInt32 :: int where "MinInt32 = - 2147483648"
definition MaxInt32 :: int where "MaxInt32 = 2147483647"

text \<open>The error of a failed range check:
  \<open>fmt.Errorf("<field> value %d (must be between %d and %d): %w", v, MinInt32, MaxInt32, ErrPortOutOfRange)\<close>.\<close>

definition port_error :: "string \<Rightarrow> go_int \<Rightarrow> error" where
  "port_error field v =
     Errorf (field @ '' value '' @ fmt_d (sint v) @ '' (must be between '' @ fmt_d MinInt32
             @ '' and '' @ fmt_d MaxInt32 @ ''): '') ErrPortOutOfRange"

definition out_of_int32 :: "go_int \<Rightarrow> bool" where
  "out_of_int32 v = (sint v < MinInt32 \<or> sint v > MaxInt32)"

text \<open>The conversion \<open>int32(v)\<close> keeps the low 32 bits.\<close>

definition to_int32 :: "go_int \<Rightarrow> int32" where
  "to_int32 v = ucast v"

definition flattenKindConfigExtraMounts :: "gmap \<Rightarrow> Mount" where
  "flattenKindConfigExtraMounts mountConfig =
     (let obj = \<lparr>ContainerPath = getString mountConfig ''container_path'',
                 HostPath = getString mountConfig ''host_path'',
                 Readonly = getBool mountConfig ''read_only'',
                 SelinuxRelabel = getBool mountConfig ''selinux_relabel'',
                 Propagation = []\<rparr>;
          propagation = getString mountConfig ''propagation''
      in if propagation \<noteq> [] then
           (if propagation = MountPropagationBidirectional
              then obj\<lparr>Propagation := MountPropagationBidirectional\<rparr>
            else if propagation = MountPropagationHostToContainer
              then obj\<lparr>Propagation := MountPropagationHostToContainer\<rparr>
            else if propagation = MountPropagationNone
              then obj\<lparr>Propagation := MountPropagationNone\<rparr>
            else obj)
         else obj)"

text \<open>
  The functions that can fail return the pair \<open>(obj, err)\<close> of the source: on an error the
  object is the partially filled one the source returns beside it.
\<close>

definition flattenKindConfigExtraPortMappings :: "gmap \<Rightarrow> PortMapping \<times> error option" where
  "flattenKindConfigExtraPortMappings portMappingConfig =
     (let obj = zero_PortMapping\<lparr>ListenAddress := getString portMappingConfig ''listen_address''\<rparr>;
          containerPort = getInt portMappingConfig ''container_port''
      in if containerPort \<noteq> 0 \<and> out_of_int32 containerPort
           then (obj, Some (port_error ''container_port'' containerPort))
         else
          let obj = (if containerPort \<noteq> 0 then obj\<lparr>ContainerPort := to_int32 containerPort\<rparr> else obj);
              hostPort = getInt portMappingConfig ''host_port''
          in if hostPort \<noteq> 0 \<and> out_of_int32 hostPort
               then (obj, Some (port_error ''host_port'' hostPort))
             else
              let obj = (if hostPort \<noteq> 0 then obj\<lparr>HostPort := to_int32 hostPort\<rparr> else obj);
                  protocol = getString portMappingConfig ''protocol''
              in (if protocol \<noteq> [] then
                    (if protocol = PortMappingProtocolSCTP
                       then obj\<lparr>Protocol := PortMappingProtocolSCTP\<rparr>
                     else if protocol = PortMappingProtocolTCP
                       then obj\<lparr>Protocol := PortMappingProtocolTCP\<rparr>
                     else if protocol = PortMappingProtocolUDP
                       then obj\<lparr>Protocol := PortMappingProtocolUDP\<rparr>
                     else obj)
                  else obj, None))"

definition flattenKindConfigNetworking :: "gmap \<Rightarrow> Networking \<times> error option" where
  "flattenKindConfigNetworking networkingConfig =
     (let obj = zero_Networking\<lparr>APIServerAddress := getString networkingConfig ''api_server_address'',
                                DisableDefaultCNI := getBool networkingConfig ''disable_default_cni''\<rparr>;
          port = getInt networkingConfig ''api_server_port''
      in if port \<noteq> 0 \<and> out_of_int32 port
           then (obj, Some (port_error ''api_server_port'' port))
         else
          let obj = (if port \<noteq> 0 then obj\<lparr>APIServerPort := to_int32 port\<rparr> else obj);
              ipFamily = getString networkingConfig ''ip_family'';
              obj = (if ipFamily \<noteq> [] then
                       (if ipFamily = IPv4Family then obj\<lparr>IPFamily := IPv4Family\<rparr>
                        else if ipFamily = IPv6Family then obj\<lparr>IPFamily := IPv6Family\<rparr>
                        else if ipFamily = DualStackFamily then obj\<lparr>IPFamily := DualStackFamily\<rparr>
                        else obj)
                     else obj);
              kubeProxyMode = getString networkingConfig ''kube_proxy_mode'';
              obj = (if kubeProxyMode \<noteq> [] then
                       (if kubeProxyMode = IPTablesProxyMode then obj\<lparr>KubeProxyMode := IPTablesProxyMode\<rparr>
                        else if kubeProxyMode = IPVSProxyMode then obj\<lparr>KubeProxyMode := IPVSProxyMode\<rparr>
                        else if kubeProxyMode = kubeProxyModeNone then obj\<lparr>KubeProxyMode := kubeProxyModeNone\<rparr>
                        else obj)
                     else obj);
              obj = obj\<lparr>PodSubnet := getString networkingConfig ''pod_subnet'',
                         ServiceSubnet := getString networkingConfig ''service_subnet''\<rparr>;
              dnsSearch = getStringSlice networkingConfig ''dns_search'';
              obj = (if dnsSearch \<noteq> None then obj\<lparr>DNSSearch := dnsSearch\<rparr> else obj)
          in (obj, None))"

text \<open>The loop over \<open>extra_port_mappings\<close>: the first failing mapping ends the node.\<close>

fun port_mappings_loop :: "gmap list \<Rightarrow> Node \<Rightarrow> Node \<times> error option" where
  "port_mappings_loop [] obj = (obj, None)"
| "port_mappings_loop (portMap # rest) obj =
     (case flattenKindConfigExtraPortMappings portMap of
        (portMapping, Some err) \<Rightarrow>
          (obj, Some (Errorf ''failed to flatten port mapping configuration: '' err))
      | (portMapping, None) \<Rightarrow>
          port_mappings_loop rest (obj\<lparr>ExtraPortMappings := ExtraPortMappings obj @ [portMapping]\<rparr>))"

definition flattenKindConfigNodes :: "gmap \<Rightarrow> Node \<times> error option" where
  "flattenKindConfigNodes nodeConfig =
     (let obj = zero_Node;
          role = getString nodeConfig ''role'';
          obj = (if role \<noteq> [] then
                   (if role = ControlPlaneRole then obj\<lparr>Role := ControlPlaneRole\<rparr>
                    else if role = WorkerRole then obj\<lparr>Role := WorkerRole\<rparr>
                    else obj)
                 else obj);
          image = getString nodeConfig ''image'';
          obj = (if image \<noteq> [] then obj\<lparr>Image := image\<rparr> else obj);
          obj = obj\<lparr>ExtraMounts := ExtraMounts obj
                      @ map flattenKindConfigExtraMounts (range_of (getMapSlice nodeConfig ''extra_mounts''))\<rparr>;
          labels = getStringMap nodeConfig ''labels'';
          obj = (if labels \<noteq> None then obj\<lparr>Labels := labels\<rparr> else obj)
      in case port_mappings_loop (range_of (getMapSlice nodeConfig ''extra_port_mappings'')) obj of
           (obj, Some err) \<Rightarrow> (obj, Some err)
         | (obj, None) \<Rightarrow>
             (obj\<lparr>KubeadmConfigPatches := getStringSlice nodeConfig ''kubeadm_config_patches''\<rparr>, None))"

text \<open>The loop over \<open>node\<close>: the first failing node ends the normalization.\<close>

fun nodes_loop :: "gmap list \<Rightarrow> Cluster \<Rightarrow> error + Cluster" where
  "nodes_loop [] obj = Inr obj"
| "nodes_loop (nodeMap # rest) obj =
     (case flattenKindConfigNodes nodeMap of
        (node, Some err) \<Rightarrow> Inl (Errorf ''failed to flatten node configuration: '' err)
      | (node, None) \<Rightarrow> nodes_loop rest (obj\<lparr>Nodes := Nodes obj @ [node]\<rparr>))"

text \<open>
  \<open>strings.ReplaceAll(k, "_", "/")\<close>: both strings are one byte long, so every byte equal
  to the old one is replaced.
\<close>

definition ReplaceAll :: "string \<Rightarrow> char \<Rightarrow> char \<Rightarrow> string" where
  "ReplaceAll s old new = map (\<lambda>c. if c = old then new else c) s"

text \<open>
  \<open>strings.EqualFold\<close>, on bytes: an ASCII capital equals its small letter and every other
  byte only itself. Against the ASCII word \<open>true\<close> this is what the library computes, since
  no character outside ASCII folds to one of its letters.
\<close>

definition to_lower :: "char \<Rightarrow> char" where
  "to_lower c = (case map_of (zip ''ABCDEFGHIJKLMNOPQRSTUVWXYZ'' ''abcdefghijklmnopqrstuvwxyz'') c of
                   Some l \<Rightarrow> l
                 | None \<Rightarrow> c)"

definition EqualFold :: "string \<Rightarrow> string \<Rightarrow> bool" where
  "EqualFold s t = (map to_lower s = map to_lower t)"

text \<open>The two loops over string maps: \<open>m[k] = v\<close> is \<open>AList.update k v m\<close>.\<close>

fun runtime_config_loop :: "(string \<times> string) list \<Rightarrow> (string \<times> string) list \<Rightarrow> (string \<times> string) list" where
  "runtime_config_loop [] m = m"
| "runtime_config_loop ((k, v) # rest) m =
     runtime_config_loop rest (AList.update (ReplaceAll k CHR ''_'' CHR ''/'') v m)"

fun feature_gates_loop :: "(string \<times> string) list \<Rightarrow> (string \<times> bool) list \<Rightarrow> (string \<times> bool) list" where
  "feature_gates_loop [] m = m"
| "feature_gates_loop ((k, v) # rest) m =
     feature_gates_loop rest (AList.update k (EqualFold v ''true'') m)"

definition flattenKindConfig :: "gmap \<Rightarrow> error + Cluster" where
  "flattenKindConfig kindConfig =
     (let obj = zero_Cluster\<lparr>Kind := getString kindConfig ''kind'',
                             APIVersion := getString kindConfig ''api_version''\<rparr>
      in case nodes_loop (range_of (getMapSlice kindConfig ''node'')) obj of
           Inl err \<Rightarrow> Inl err
         | Inr obj \<Rightarrow>
            (case (case range_of (getMapSlice kindConfig ''networking'') of
                     [] \<Rightarrow> Inr obj
                   | first # _ \<Rightarrow>
                       (case flattenKindConfigNetworking first of
                          (networking, Some err) \<Rightarrow>
                            Inl (Errorf ''failed to flatten networking configuration: '' err)
                        | (networking, None) \<Rightarrow> Inr (obj\<lparr>Networking := networking\<rparr>))) of
               Inl err \<Rightarrow> Inl err
             | Inr obj \<Rightarrow>
                 (let obj = obj\<lparr>ContainerdConfigPatches := getStringSlice kindConfig ''containerd_config_patches''\<rparr>;
                      obj = (case getStringMap kindConfig ''runtime_config'' of
                               None \<Rightarrow> obj
                             | Some runtimeConfig \<Rightarrow>
                                 obj\<lparr>RuntimeConfig := Some (runtime_config_loop runtimeConfig [])\<rparr>);
                      obj = (case getStringMap kindConfig ''feature_gates'' of
                               None \<Rightarrow> obj
                             | Some featureGates \<Rightarrow>
                                 obj\<lparr>FeatureGates := Some (feature_gates_loop featureGates [])\<rparr>)
                  in Inr obj)))"

section \<open>TOML normalization (utils.go)\<close>

text \<open>
  \<open>toml.Load\<close> and \<open>Tree.ToTomlString\<close> belong to the go-toml library, which is not part of
  the repository: they are the parameters \<open>Load\<close> and \<open>ToTomlString\<close>, over any type of
  trees.
\<close>

definition normalizeToml ::
  "(string \<Rightarrow> error + 'tree) \<Rightarrow> ('tree \<Rightarrow> error + string) \<Rightarrow> gval \<Rightarrow> string \<times> error option" where
  "normalizeToml Load ToTomlString tomlString =
     (case tomlString of
        GNil \<Rightarrow> ([], None)
      | GString tomlStr \<Rightarrow>
          if tomlStr = [] then ([], None)
          else (case Load tomlStr of
                  Inl err \<Rightarrow> (tomlStr, Some (Errorf ''failed to parse TOML: '' err))
                | Inr tree \<Rightarrow>
                    (case ToTomlString tree of
                       Inl err \<Rightarrow> (tomlStr, Some (Errorf ''failed to serialize TOML: '' err))
                     | Inr result \<Rightarrow> (result, None)))
      | _ \<Rightarrow> ([], None))"

section \<open>The attribute tree decoder (utils.go)\<close>

text \<open>A value of the host framework is null, unknown or known.\<close>

datatype 'a tf = Null | Unknown | Known 'a

definition IsNull :: "'a tf \<Rightarrow> bool" where
  "IsNull v = (case v of Null \<Rightarrow> True | _ \<Rightarrow> False)"

definition ValueString :: "string tf \<Rightarrow> string" where
  "ValueString v = (case v of Known s \<Rightarrow> s | _ \<Rightarrow> [])"

definition ValueBool :: "bool tf \<Rightarrow> bool" where
  "ValueBool v = (case v of Known b \<Rightarrow> b | _ \<Rightarrow> False)"

text \<open>
  The attribute values \<open>attrValueToAny\<close> tells apart; \<open>TOther\<close> is any other type of the
  framework. A \<open>types.Number\<close> carries the float64 that \<open>Float64()\<close> rounds it to.
\<close>

datatype attr =
    TString "string tf"
  | TBool "bool tf"
  | TInt64 "go_int tf"
  | TFloat64 "float64 tf"
  | TNumber "float64 tf"
  | TList "attr list tf"
  | TSet "attr list tf"
  | TMap "(string \<times> attr) list tf"
  | TObject "(string \<times> attr) list tf"
  | TOther "unit tf"

fun attrValueToAny :: "attr \<Rightarrow> gval" where
  "attrValueToAny (TString (Known s)) = GString s"
| "attrValueToAny (TBool (Known b)) = GBool b"
| "attrValueToAny (TInt64 (Known i)) = GInt i"
| "attrValueToAny (TFloat64 (Known f)) = GFloat f"
| "attrValueToAny (TNumber (Known f)) = GFloat f"
| "attrValueToAny (TList (Known elements)) = GSlice (map attrValueToAny elements)"
| "attrValueToAny (TSet (Known elements)) = GSlice (map attrValueToAny elements)"
| "attrValueToAny (TMap (Known elements)) = GMap (map (\<lambda>kv. (fst kv, attrValueToAny (snd kv))) elements)"
| "attrValueToAny (TObject (Known attrs)) = GMap (map (\<lambda>kv. (fst kv, attrValueToAny (snd kv))) attrs)"
| "attrValueToAny _ = GNil"

text \<open>\<open>objectToMap\<close>: a null or unknown object gives the nil map, which reads as the empty one.\<close>

definition objectToMap :: "(string \<times> attr) list tf \<Rightarrow> gmap" where
  "objectToMap obj =
     (case obj of Known attrs \<Rightarrow> map (\<lambda>kv. (fst kv, attrValueToAny (snd kv))) attrs | _ \<Rightarrow> [])"

text \<open>\<open>parseKindConfigFromFramework\<close> returns \<open>(nil, nil)\<close>, \<open>(nil, err)\<close> or \<open>(cluster, nil)\<close>.\<close>

definition parseKindConfigFromFramework :: "attr list tf \<Rightarrow> error + Cluster option" where
  "parseKindConfigFromFramework kindConfigList =
     (case kindConfigList of
        Known (TObject kindConfigObj # _) \<Rightarrow>
          (case flattenKindConfig (objectToMap kindConfigObj) of
             Inl err \<Rightarrow> Inl (Errorf ''failed to parse kind configuration: '' err)
           | Inr cluster \<Rightarrow> Inr (Some cluster))
      | _ \<Rightarrow> Inr None)"

section \<open>The lifecycle controller\<close>

subsection \<open>Constants and data\<close>

text \<open>A \<open>time.Duration\<close> counts nanoseconds.\<close>

type_synonym Duration = int

definition Second :: Duration where "Second = 1000000000"
definition Minute :: Duration where "Minute = 60 * Second"

definition defaultTimeout :: Duration where "defaultTimeout = 5 * Minute"
definition defaultNodeImage :: string where
  "defaultNodeImage = ''kindest/node:v1.34.0@sha256:7416a61b42b1662ca6ca89f02028ac133a309a2a30ba309614e8ec94d976dc5a''"
definition maxRetries :: nat where "maxRetries = 2"
definition retryDelay :: Duration where "retryDelay = 5 * Second"

text \<open>\<open>fmt.Errorf("delete operation timed out after %v", defaultTimeout)\<close>: five minutes print
  as \<open>5m0s\<close>.\<close>

definition errDeleteTimeout :: error where
  "errDeleteTimeout = ErrorNew ''delete operation timed out after 5m0s''"

record ClusterResourceModel =
  KindConfig :: "attr list tf"
  ID :: "string tf"
  Name :: "string tf"
  NodeImage :: "string tf"
  KubeconfigPath :: "string tf"
  Kubeconfig :: "string tf"
  ClientCertificate :: "string tf"
  ClientKey :: "string tf"
  ClusterCACertificate :: "string tf"
  Endpoint :: "string tf"
  WaitForReady :: "bool tf"
  Completed :: "bool tf"

datatype diag = DiagError string string | DiagWarning string string

fun is_error :: "diag \<Rightarrow> bool" where
  "is_error (DiagError summary detail) = True"
| "is_error (DiagWarning summary detail) = False"

definition HasError :: "diag list \<Rightarrow> bool" where
  "HasError diags = list_ex is_error diags"

definition Elements :: "attr list tf \<Rightarrow> attr list" where
  "Elements l = (case l of Known elements \<Rightarrow> elements | _ \<Rightarrow> [])"

datatype CreateOption =
    CreateWithKubeconfigPath string
  | CreateWithV1Alpha4Config Cluster
  | CreateWithNodeImage string
  | CreateWithWaitForReady Duration

text \<open>The connection coordinates \<open>clientcmd.RESTConfigFromKubeConfig\<close> extracts.\<close>

record RESTConfig =
  CertData :: string
  KeyData :: string
  CAData :: string
  Host :: string

text \<open>
  A kubeconfig document (\<open>clientcmdapi.Config\<close>): the three maps and the marker the
  controller touches, the entries themselves opaque, and the rest of the document in
  \<open>Other\<close>.
\<close>

record Config =
  Clusters :: "(string \<times> string) list"
  AuthInfos :: "(string \<times> string) list"
  Contexts :: "(string \<times> string) list"
  CurrentContext :: string
  Other :: string

text \<open>What \<open>select\<close> in \<open>Delete\<close> receives first: the result of the deletion running in the
  goroutine, or the end of the context that carries the timeout.\<close>

datatype select_result = DeleteReturned "error option" | ContextDone

text \<open>
  The external collaborators, as the answers they give to the controller during one
  invocation: the host framework (\<open>Plan_Get\<close>, \<open>State_Get\<close>, \<open>State_Set\<close>), the provisioning
  engine (the result of the \<open>n\<close>-th call of \<open>Create\<close> and of \<open>Delete\<close> inside \<open>Create\<close>,
  counted from 0, and of its other calls), the operating system and the kubeconfig library
  (the result of writing the file at a path). The arguments of the calls are in the events
  of the invocation.

  For the race in \<open>Delete\<close>, with time counted from the moment \<open>Delete\<close> derives its context:
  \<open>Delete_returns\<close> is when the engine's deletion, running in the goroutine, returns and
  with what (\<open>None\<close>: it never returns); \<open>ctx_Done\<close> is when the context \<open>ctx\<close> the caller
  passed ends, cancelled or past its own deadline (\<open>None\<close>: it does not end);
  \<open>select_takes_result\<close> is the choice \<open>select\<close> makes when both of its cases are ready at
  the same moment.
\<close>

record env =
  Plan_Get :: "diag list \<times> ClusterResourceModel"
  State_Get :: "diag list \<times> ClusterResourceModel"
  State_Set :: "ClusterResourceModel \<Rightarrow> diag list"
  provider_Create :: "nat \<Rightarrow> error option"
  provider_Delete :: "nat \<Rightarrow> error option"
  provider_KubeConfig :: "error + string"
  provider_ExportKubeConfig :: "error option"
  os_Getwd :: "error + string"
  RESTConfigFromKubeConfig :: "string \<Rightarrow> error + RESTConfig"
  Delete_returns :: "(Duration \<times> error option) option"
  ctx_Done :: "Duration option"
  select_takes_result :: bool
  RecommendedHomeFile :: string
  WriteToFile_result :: "string \<Rightarrow> error option"

text \<open>What an invocation does to the outside, in order.\<close>

datatype event =
    Call_Create string "CreateOption list"
  | Call_Delete string string
  | Call_KubeConfig string
  | Call_ExportKubeConfig string string
  | Sleep Duration
  | Blocked Duration
  | Warn string
  | Debug string
  | LoadFromFile string
  | WriteToFile Config string

text \<open>The response of an invocation: the diagnostics, the state it saved (if it did) and
  the events.\<close>

record response =
  Diagnostics :: "diag list"
  State :: "ClusterResourceModel option"
  Log :: "event list"

subsection \<open>Create\<close>

text \<open>
  The retry loop \<open>for attempt := 0; attempt <= maxRetries; attempt++\<close>, with the variable
  \<open>err\<close> and the events so far as its state.
\<close>

function create_loop ::
  "env \<Rightarrow> string \<Rightarrow> CreateOption list \<Rightarrow> nat \<Rightarrow> error option \<Rightarrow> event list \<Rightarrow> error option \<times> event list" where
  "create_loop e name copts attempt err log =
     (if attempt \<le> maxRetries then
        (let log = (if attempt > 0 then
                      log @ [Call_Delete name []]
                          @ (case provider_Delete e (attempt - 1) of
                               None \<Rightarrow> []
                             | Some delErr \<Rightarrow>
                                 [Warn (''Failed to delete cluster during retry: '' @ Error delErr)])
                          @ [Sleep retryDelay]
                    else log);
             err = provider_Create e attempt;
             log = log @ [Call_Create name copts]
         in if err = None then (err, log)
            else create_loop e name copts (Suc attempt) err log)
      else (err, log))"
  by pat_completeness auto
termination
  by (relation "measure (\<lambda>(e, name, copts, attempt, err, log). Suc maxRetries - attempt)") auto

declare create_loop.simps [simp del]

definition readClusterState ::
  "env \<Rightarrow> ClusterResourceModel \<Rightarrow> diag list \<Rightarrow> event list
     \<Rightarrow> ClusterResourceModel \<times> diag list \<times> event list" where
  "readClusterState e data diags log =
     (let name = ValueString (Name data);
          log = log @ [Debug (''Reading cluster state for: '' @ name), Call_KubeConfig name]
      in case provider_KubeConfig e of
           Inl err \<Rightarrow>
             (data,
              diags @ [DiagError ''Error reading Kind cluster''
                         (''Could not read kubeconfig for cluster '' @ name @ '': '' @ Error err)],
              log)
         | Inr kconfig \<Rightarrow>
            (let data = data\<lparr>Kubeconfig := Known kconfig\<rparr>
             in case (if IsNull (KubeconfigPath data) \<or> ValueString (KubeconfigPath data) = [] then
                        (case os_Getwd e of
                           Inl err \<Rightarrow>
                             Inl (data, diags @ [DiagError ''Error getting current directory'' (Error err)], log)
                         | Inr currentPath \<Rightarrow>
                            (let exportPath = currentPath @ ''/'' @ name @ ''-config'';
                                 log = log @ [Call_ExportKubeConfig name exportPath]
                             in case provider_ExportKubeConfig e of
                                  Some err \<Rightarrow>
                                    Inl (data,
                                         diags @ [DiagError ''Error exporting kubeconfig''
                                                    (''Could not export kubeconfig for cluster '' @ name
                                                      @ '': '' @ Error err)],
                                         log)
                                | None \<Rightarrow> Inr (data\<lparr>KubeconfigPath := Known exportPath\<rparr>, log)))
                      else Inr (data, log)) of
                  Inl failed \<Rightarrow> failed
                | Inr (data, log) \<Rightarrow>
                    (case RESTConfigFromKubeConfig e kconfig of
                       Inl err \<Rightarrow> (data, diags @ [DiagError ''Error parsing kubeconfig'' (Error err)], log)
                     | Inr config \<Rightarrow>
                         (data\<lparr>ClientCertificate := Known (CertData config),
                               ClientKey := Known (KeyData config),
                               ClusterCACertificate := Known (CAData config),
                               Endpoint := Known (Host config),
                               Completed := Known True\<rparr>,
                          diags, log))))"

definition Create :: "env \<Rightarrow> response" where
  "Create e =
     (let diags = fst (Plan_Get e); data = snd (Plan_Get e)
      in if HasError diags then \<lparr>Diagnostics = diags, State = None, Log = []\<rparr>
         else
          let name = ValueString (Name data);
              nodeImage = ValueString (NodeImage data);
              nodeImage = (if nodeImage = [] then defaultNodeImage else nodeImage);
              waitForReady = ValueBool (WaitForReady data);
              kubeconfigPath = ValueString (KubeconfigPath data);
              copts = (if kubeconfigPath \<noteq> [] then [CreateWithKubeconfigPath kubeconfigPath] else [])
          in case (if \<not> IsNull (KindConfig data) \<and> length (Elements (KindConfig data)) > 0 then
                     (case parseKindConfigFromFramework (KindConfig data) of
                        Inl err \<Rightarrow> Inl err
                      | Inr None \<Rightarrow> Inr copts
                      | Inr (Some kindConfig) \<Rightarrow> Inr (copts @ [CreateWithV1Alpha4Config kindConfig]))
                   else Inr copts) of
               Inl err \<Rightarrow>
                 \<lparr>Diagnostics = diags @ [DiagError ''Error parsing kind_config''
                                           (''Could not parse kind_config: '' @ Error err)],
                  State = None, Log = []\<rparr>
             | Inr copts \<Rightarrow>
                (let copts = copts @ [CreateWithNodeImage nodeImage];
                     copts = (if waitForReady then copts @ [CreateWithWaitForReady defaultTimeout] else copts)
                 in case create_loop e name copts 0 None [] of
                      (Some err, log) \<Rightarrow>
                        \<lparr>Diagnostics = diags @ [DiagError ''Error creating Kind cluster''
                                                  (''Could not create cluster '' @ name @ '' after ''
                                                    @ fmt_d (int maxRetries + 1) @ '' attempts: '' @ Error err)],
                         State = None, Log = log\<rparr>
                    | (None, log) \<Rightarrow>
                       (let data = data\<lparr>NodeImage := Known nodeImage,
                                        ID := Known (name @ ''-'' @ nodeImage)\<rparr>
                        in case readClusterState e data diags log of
                             (data, diags, log) \<Rightarrow>
                               if HasError diags then \<lparr>Diagnostics = diags, State = None, Log = log\<rparr>
                               else \<lparr>Diagnostics = diags @ State_Set e data, State = Some data, Log = log\<rparr>)))"

subsection \<open>Delete\<close>

text \<open>
  The kubeconfig files are state: \<open>files path\<close> is what \<open>clientcmd.LoadFromFile path\<close>
  returns. A write that succeeds replaces the content of the file; a write that fails is
  taken to leave it as it was.
\<close>

record world =
  files :: "string \<Rightarrow> error + Config"
  events :: "event list"

text \<open>The changes \<open>removeContext\<close> makes to a loaded document that has the context.\<close>

definition remove_entries :: "string \<Rightarrow> Config \<Rightarrow> Config" where
  "remove_entries contextName config =
     (let config = config\<lparr>Contexts := AList.delete contextName (Contexts config)\<rparr>;
          config = config\<lparr>AuthInfos := AList.delete contextName (AuthInfos config)\<rparr>;
          config = config\<lparr>Clusters := AList.delete contextName (Clusters config)\<rparr>
      in if CurrentContext config = contextName then config\<lparr>CurrentContext := []\<rparr> else config)"

definition removeContext :: "env \<Rightarrow> string \<Rightarrow> string \<Rightarrow> string \<Rightarrow> world \<Rightarrow> world" where
  "removeContext e contextName configPath configType w =
     (let w = w\<lparr>events := events w @ [LoadFromFile configPath]\<rparr>
      in case files w configPath of
           Inl loadErr \<Rightarrow>
             w\<lparr>events := events w
                  @ [Warn (''Unable to load '' @ configType @ '' kubeconfig for context cleanup: ''
                           @ Error loadErr)]\<rparr>
         | Inr config \<Rightarrow>
             if map_of (Contexts config) contextName = None then w
             else
              let config = remove_entries contextName config;
                  w = w\<lparr>events := events w @ [WriteToFile config configPath]\<rparr>
              in case WriteToFile_result e configPath of
                   Some writeErr \<Rightarrow>
                     w\<lparr>events := events w
                          @ [Warn (''Unable to write '' @ configType @ '' kubeconfig to remove context: ''
                                   @ Error writeErr)]\<rparr>
                 | None \<Rightarrow> w\<lparr>files := fun_upd (files w) configPath (Inr config)\<rparr>)"

text \<open>
  \<open>context.WithTimeout(ctx, defaultTimeout)\<close>: the derived context ends when the timeout
  has passed or when its parent \<open>ctx\<close> ends, whichever comes first.
\<close>

definition deleteCtx_Done :: "env \<Rightarrow> Duration" where
  "deleteCtx_Done e =
     (case ctx_Done e of None \<Rightarrow> defaultTimeout | Some d \<Rightarrow> min d defaultTimeout)"

text \<open>
  The \<open>select\<close> over \<open>errChan\<close> and \<open>deleteCtx.Done()\<close>: it blocks until one of the two is
  ready and takes that case; the result is the case taken and the time spent blocked.
\<close>

definition select_delete :: "env \<Rightarrow> select_result \<times> Duration" where
  "select_delete e =
     (case Delete_returns e of
        None \<Rightarrow> (ContextDone, deleteCtx_Done e)
      | Some (d, err) \<Rightarrow>
          if d < deleteCtx_Done e \<or> d = deleteCtx_Done e \<and> select_takes_result e
          then (DeleteReturned err, d)
          else (ContextDone, deleteCtx_Done e))"

definition delete_select :: "env \<Rightarrow> select_result" where
  "delete_select e = fst (select_delete e)"

text \<open>The response of \<open>Delete\<close>: the diagnostics and the world it leaves.\<close>

definition Delete :: "env \<Rightarrow> (string \<Rightarrow> error + Config) \<Rightarrow> diag list \<times> world" where
  "Delete e fs =
     (let diags = fst (State_Get e); data = snd (State_Get e); w = \<lparr>files = fs, events = []\<rparr>
      in if HasError diags then (diags, w)
         else
          let name = ValueString (Name data);
              kubeconfigPath = ValueString (KubeconfigPath data);
              w = w\<lparr>events := events w @ [Call_Delete name kubeconfigPath,
                                             Blocked (snd (select_delete e))]\<rparr>;
              err = (case delete_select e of
                       DeleteReturned err \<Rightarrow> err
                     | ContextDone \<Rightarrow> Some errDeleteTimeout)
          in case err of
               Some err \<Rightarrow>
                 (diags @ [DiagError ''Error deleting Kind cluster''
                             (''Could not delete cluster '' @ name @ '': '' @ Error err)], w)
             | None \<Rightarrow>
                (let contextName = ''kind-'' @ name;
                     defaultKubeconfigPath = RecommendedHomeFile e;
                     w = removeContext e contextName defaultKubeconfigPath ''default'' w;
                     w = (if kubeconfigPath \<noteq> []
                          then removeContext e contextName kubeconfigPath ''custom'' w else w)
                 in (diags, w)))"

subsection \<open>Names for the statements\<close>

text \<open>
  The events of attempt \<open>i\<close> of the retry loop (the body of \<open>create_loop\<close>): before a
  retry, the deletion of the partly created cluster, the warning if the deletion fails
  and the sleep; then the call of the engine.
\<close>

definition attempt_events :: "env \<Rightarrow> string \<Rightarrow> CreateOption list \<Rightarrow> nat \<Rightarrow> event list" where
  "attempt_events e name copts i =
     (if i > 0 then
        [Call_Delete name []]
          @ (case provider_Delete e (i - 1) of
               None \<Rightarrow> []
             | Some delErr \<Rightarrow> [Warn (''Failed to delete cluster during retry: '' @ Error delErr)])
          @ [Sleep retryDelay]
      else []) @ [Call_Create name copts]"

text \<open>The options \<open>Create\<close> has built when it enters the retry loop.\<close>

definition create_options :: "ClusterResourceModel \<Rightarrow> CreateOption list" where
  "create_options data =
     (if ValueString (KubeconfigPath data) \<noteq> [] then [CreateWithKubeconfigPath (ValueString (KubeconfigPath data))] else [])
     @ (case parseKindConfigFromFramework (KindConfig data) of
          Inr (Some kindConfig) \<Rightarrow> [CreateWithV1Alpha4Config kindConfig]
        | _ \<Rightarrow> [])
     @ [CreateWithNodeImage (if ValueString (NodeImage data) = [] then defaultNodeImage
                             else ValueString (NodeImage data))]
     @ (if ValueBool (WaitForReady data) then [CreateWithWaitForReady defaultTimeout] else [])"

subsection \<open>An example invocation\<close>

text \<open>
  An invocation in which every collaborator succeeds, for a cluster named \<open>test\<close> with no
  node image, no \<open>kind_config\<close> block and, at creation, no kubeconfig path; the state read
  at deletion has the path the creation exported to.
\<close>

definition example_model :: ClusterResourceModel where
  "example_model =
     \<lparr>KindConfig = Null, ID = Unknown, Name = Known ''test'', NodeImage = Null, KubeconfigPath = Null,
      Kubeconfig = Unknown, ClientCertificate = Unknown, ClientKey = Unknown,
      ClusterCACertificate = Unknown, Endpoint = Unknown, WaitForReady = Known False,
      Completed = Unknown\<rparr>"

definition example_env :: env where
  "example_env =
     \<lparr>Plan_Get = ([], example_model),
      State_Get = ([], example_model\<lparr>KubeconfigPath := Known ''/work/test-config''\<rparr>),
      State_Set = (\<lambda>data. []),
      provider_Create = (\<lambda>n. None),
      provider_Delete = (\<lambda>n. None),
      provider_KubeConfig = Inr ''kubeconfig'',
      provider_ExportKubeConfig = None,
      os_Getwd = Inr ''/work'',
      RESTConfigFromKubeConfig =
        (\<lambda>kconfig. Inr \<lparr>CertData = ''cert'', KeyData = ''key'', CAData = ''ca'',
                          Host = ''https://127.0.0.1:6443''\<rparr>),
      Delete_returns = Some (3 * Second, None),
      ctx_Done = None,
      select_takes_result = True,
      RecommendedHomeFile = ''/home/user/.kube/config'',
      WriteToFile_result = (\<lambda>path. None)\<rparr>"

text \<open>A default kubeconfig that holds the cluster \<open>test\<close> as its current context beside
  another cluster; no other file exists.\<close>

definition example_kubeconfig :: Config where
  "example_kubeconfig =
     \<lparr>Clusters = [(''kind-test'', ''cluster 1''), (''prod'', ''cluster 2'')],
      AuthInfos = [(''kind-test'', ''user 1''), (''prod'', ''user 2'')],
      Contexts = [(''kind-test'', ''context 1''), (''prod'', ''context 2'')],
      CurrentContext = ''kind-test'',
      Other = ''preferences''\<rparr>"

definition example_files :: "string \<Rightarrow> error + Config" where
  "example_files path =
     (if path = ''/home/user/.kube/config'' then Inr example_kubeconfig
      else Inl (ErrorNew ''no such file or directory''))"

subsection \<open>An example configuration\<close>

text \<open>
  The element of the \<open>kind_config\<close> list that the framework delivers for
  \<open>kind_config { kind = "Cluster"  networking { api_server_port = <port> } }\<close>, by the schema
  of \<open>schema_kind_config.go\<close>: every attribute and block is present, the unset ones null;
  \<open>api_version\<close> has its default; the block \<open>node\<close> (a \<open>ListNestedBlock\<close>) is a list, here
  empty, and the block \<open>networking\<close> (a \<open>SingleNestedBlock\<close>) is an object.
\<close>

definition example_kind_config :: "go_int \<Rightarrow> attr" where
  "example_kind_config port =
     TObject (Known
       [(''kind'', TString (Known ''Cluster'')),
        (''api_version'', TString (Known ''kind.x-k8s.io/v1alpha4'')),
        (''containerd_config_patches'', TList Null),
        (''runtime_config'', TMap Null),
        (''feature_gates'', TMap Null),
        (''node'', TList (Known [])),
        (''networking'', TObject (Known
           [(''api_server_address'', TString Null),
            (''api_server_port'', TInt64 (Known port)),
            (''pod_subnet'', TString Null),
            (''service_subnet'', TString Null),
            (''disable_default_cni'', TBool Null),
            (''kube_proxy_mode'', TString Null),
            (''ip_family'', TString Null),
            (''dns_search'', TList Null)]))])"

section \<open>Properties of the TOML normalization\<close>

text \<open>
  Claim C8. \<open>normalizeToml\<close> returns the empty string and no error for a nil input, for the
  empty string and for an input that is not a string; for a non-empty string that the
  TOML parser rejects it returns that very string, unmodified, together with a non-nil
  error that wraps the parser's error. This holds whatever the TOML library does.
\<close>

theorem normalizeToml_passthrough:
  "(tomlString = GNil \<or> tomlString = GString [] \<or> (\<forall>s. tomlString \<noteq> GString s)
      \<longrightarrow> normalizeToml Load ToTomlString tomlString = ([], None))
   \<and> (s \<noteq> [] \<and> Load s = Inl err
      \<longrightarrow> normalizeToml Load ToTomlString (GString s) = (s, Some (Errorf ''failed to parse TOML: '' err))
          \<and> snd (normalizeToml Load ToTomlString (GString s)) \<noteq> None)"
  by (cases tomlString) (auto simp: normalizeToml_def)

theorem normalizeToml_passthrough_witness:
  "normalizeToml (\<lambda>s. if s = ''invalid [[['' then Inl (ErrorNew ''parse error'') else Inr s) Inr GNil = ([], None)
   \<and> normalizeToml (\<lambda>s. if s = ''invalid [[['' then Inl (ErrorNew ''parse error'') else Inr s) Inr (GString []) = ([], None)
   \<and> normalizeToml (\<lambda>s. if s = ''invalid [[['' then Inl (ErrorNew ''parse error'') else Inr s) Inr (GInt 123) = ([], None)
   \<and> normalizeToml (\<lambda>s. if s = ''invalid [[['' then Inl (ErrorNew ''parse error'') else Inr s) Inr (GString ''invalid [[['')
       = (''invalid [[['', Some (Errorf ''failed to parse TOML: '' (ErrorNew ''parse error'')))"
  using normalizeToml_passthrough [of GNil "\<lambda>s. if s = ''invalid [[['' then Inl (ErrorNew ''parse error'') else Inr s" Inr "''invalid [[[''" "ErrorNew ''parse error''"]
        normalizeToml_passthrough [of "GString []" "\<lambda>s. if s = ''invalid [[['' then Inl (ErrorNew ''parse error'') else Inr s" Inr "''invalid [[[''" "ErrorNew ''parse error''"]
        normalizeToml_passthrough [of "GInt 123" "\<lambda>s. if s = ''invalid [[['' then Inl (ErrorNew ''parse error'') else Inr s" Inr "''invalid [[[''" "ErrorNew ''parse error''"]
  by simp

text \<open>
  Whether a second normalization returns the text of the first depends on the TOML
  library alone: it does whenever every non-empty text the serializer produces parses
  again to a tree that serializes to the same text. The repository holds no code of
  that library, so the property of the library itself is not settled here.
\<close>

lemma normalizeToml_idempotent_if_roundtrip:
  assumes "normalizeToml Load ToTomlString (GString s) = (c, None)"
    and roundtrip: "\<And>tree out. ToTomlString tree = Inr out \<Longrightarrow> out \<noteq> [] \<Longrightarrow>
                      \<exists>tree'. Load out = Inr tree' \<and> ToTomlString tree' = Inr out"
  shows "normalizeToml Load ToTomlString (GString c) = (c, None)"
proof (cases "c = []")
  case True
  then show ?thesis by (simp add: normalizeToml_def)
next
  case False
  with assms(1) obtain tree where "ToTomlString tree = Inr c"
    by (auto simp: normalizeToml_def split: if_splits sum.splits)
  from roundtrip [OF this False] obtain tree' where "Load c = Inr tree'" "ToTomlString tree' = Inr c"
    by blast
  with False show ?thesis by (simp add: normalizeToml_def)
qed

section \<open>Properties of the configuration normalizer\<close>

subsection \<open>Range checks and the errors they raise\<close>

lemma sint_to_int32: "sint (to_int32 v) = signed_take_bit 31 (sint v)"
  unfolding to_int32_def
  by (simp add: sint_uint unsigned_ucast_eq signed_take_bit_take_bit)

lemma to_int32_exact:
  assumes "\<not> out_of_int32 v"
  shows "sint (to_int32 v) = sint v"
  using assms
  by (simp add: sint_to_int32 signed_take_bit_int_eq_self out_of_int32_def MinInt32_def MaxInt32_def)

lemma out_of_int32_iff: "out_of_int32 v \<longleftrightarrow> sint v < - 2147483648 \<or> 2147483647 < sint v"
  by (simp add: out_of_int32_def MinInt32_def MaxInt32_def)

lemma port_mapping_error:
  "snd (flattenKindConfigExtraPortMappings pm) =
     (if out_of_int32 (getInt pm ''container_port'')
        then Some (port_error ''container_port'' (getInt pm ''container_port''))
      else if out_of_int32 (getInt pm ''host_port'')
        then Some (port_error ''host_port'' (getInt pm ''host_port''))
      else None)"
  by (auto simp: flattenKindConfigExtraPortMappings_def Let_def out_of_int32_iff)

lemma port_mapping_ports:
  assumes "snd (flattenKindConfigExtraPortMappings pm) = None"
  shows "ContainerPort (fst (flattenKindConfigExtraPortMappings pm)) = to_int32 (getInt pm ''container_port'')"
    and "HostPort (fst (flattenKindConfigExtraPortMappings pm)) = to_int32 (getInt pm ''host_port'')"
proof -
  from assms have ok: "\<not> out_of_int32 (getInt pm ''container_port'')" "\<not> out_of_int32 (getInt pm ''host_port'')"
    by (auto simp: port_mapping_error split: if_splits)
  from ok show "ContainerPort (fst (flattenKindConfigExtraPortMappings pm)) = to_int32 (getInt pm ''container_port'')"
    by (simp add: flattenKindConfigExtraPortMappings_def Let_def zero_PortMapping_def to_int32_def)
  from ok show "HostPort (fst (flattenKindConfigExtraPortMappings pm)) = to_int32 (getInt pm ''host_port'')"
    by (simp add: flattenKindConfigExtraPortMappings_def Let_def zero_PortMapping_def to_int32_def)
qed

lemma networking_error:
  "snd (flattenKindConfigNetworking nm) =
     (if out_of_int32 (getInt nm ''api_server_port'')
        then Some (port_error ''api_server_port'' (getInt nm ''api_server_port''))
      else None)"
  by (auto simp: flattenKindConfigNetworking_def Let_def out_of_int32_iff)

lemma networking_port:
  assumes "snd (flattenKindConfigNetworking nm) = None"
  shows "APIServerPort (fst (flattenKindConfigNetworking nm)) = to_int32 (getInt nm ''api_server_port'')"
proof -
  from assms have "\<not> out_of_int32 (getInt nm ''api_server_port'')"
    by (auto simp: networking_error split: if_splits)
  then show ?thesis
    by (simp add: flattenKindConfigNetworking_def Let_def zero_Networking_def to_int32_def)
qed

lemma fmt_d_bounds: "fmt_d MinInt32 = ''-2147483648''" "fmt_d MaxInt32 = ''2147483647''"
  by (simp_all add: fmt_d_def fmt_nat.simps digit_char_def MinInt32_def MaxInt32_def)

lemma port_error_text:
  "Error (port_error field v) =
     field @ '' value '' @ fmt_d (sint v)
       @ '' (must be between -2147483648 and 2147483647): port value out of valid range''"
  by (simp add: port_error_def ErrPortOutOfRange_def fmt_d_bounds)

lemma port_error_Is: "errors_Is (port_error field v) ErrPortOutOfRange"
  by (simp add: port_error_def ErrPortOutOfRange_def)

text \<open>The loops over port mappings and nodes stop at the first failure.\<close>

lemma port_mappings_loop_err:
  "snd (port_mappings_loop pms obj) =
     (case List.find (\<lambda>pm. snd (flattenKindConfigExtraPortMappings pm) \<noteq> None) pms of
        None \<Rightarrow> None
      | Some pm \<Rightarrow> (case snd (flattenKindConfigExtraPortMappings pm) of
                     None \<Rightarrow> None
                   | Some err \<Rightarrow> Some (Errorf ''failed to flatten port mapping configuration: '' err)))"
  by (induction pms arbitrary: obj) (auto split: prod.splits option.splits)


lemma port_mappings_loop_err_obj:
  "snd (port_mappings_loop pms obj) = snd (port_mappings_loop pms obj')"
  by (simp only: port_mappings_loop_err)

lemma nodes_err:
  "snd (flattenKindConfigNodes nc) =
     snd (port_mappings_loop (range_of (getMapSlice nc ''extra_port_mappings'')) zero_Node)"
proof -
  define pms where "pms = range_of (getMapSlice nc ''extra_port_mappings'')"
  have "\<And>obj. snd (case port_mappings_loop pms obj of
                    (obj, Some err) \<Rightarrow> (obj, Some err)
                  | (obj, None) \<Rightarrow>
                      (obj\<lparr>KubeadmConfigPatches := getStringSlice nc ''kubeadm_config_patches''\<rparr>, None))
             = snd (port_mappings_loop pms obj)"
    by (simp split: prod.splits option.splits)
  then have "\<exists>obj. snd (flattenKindConfigNodes nc) = snd (port_mappings_loop pms obj)"
    unfolding flattenKindConfigNodes_def Let_def pms_def [symmetric] by blast
  then obtain obj where "snd (flattenKindConfigNodes nc) = snd (port_mappings_loop pms obj)" ..
  also have "\<dots> = snd (port_mappings_loop pms zero_Node)"
    by (rule port_mappings_loop_err_obj)
  finally show ?thesis by (simp only: pms_def)
qed

lemma nodes_loop_eq:
  "nodes_loop nodes obj =
     (case List.find (\<lambda>n. snd (flattenKindConfigNodes n) \<noteq> None) nodes of
        None \<Rightarrow> Inr (obj\<lparr>Nodes := Nodes obj @ map (\<lambda>n. fst (flattenKindConfigNodes n)) nodes\<rparr>)
      | Some n \<Rightarrow> Inl (Errorf ''failed to flatten node configuration: '' (the (snd (flattenKindConfigNodes n)))))"
proof (induction nodes arbitrary: obj)
  case Nil
  then show ?case by simp
next
  case (Cons n nodes)
  obtain node err where n: "flattenKindConfigNodes n = (node, err)"
    by (cases "flattenKindConfigNodes n")
  show ?case
  proof (cases err)
    case None
    with n Cons.IH show ?thesis by (simp split: option.splits)
  next
    case (Some e)
    with n show ?thesis by simp
  qed
qed

lemma flattenKindConfig_node_error:
  assumes "List.find (\<lambda>n. snd (flattenKindConfigNodes n) \<noteq> None) (range_of (getMapSlice kc ''node'')) = Some n"
  shows "flattenKindConfig kc =
           Inl (Errorf ''failed to flatten node configuration: '' (the (snd (flattenKindConfigNodes n))))"
  using assms by (simp add: flattenKindConfig_def Let_def nodes_loop_eq)

lemma flattenKindConfig_networking_error:
  assumes "List.find (\<lambda>n. snd (flattenKindConfigNodes n) \<noteq> None) (range_of (getMapSlice kc ''node'')) = None"
    and "range_of (getMapSlice kc ''networking'') = nm # rest"
    and "snd (flattenKindConfigNetworking nm) = Some err"
  shows "flattenKindConfig kc = Inl (Errorf ''failed to flatten networking configuration: '' err)"
proof -
  from assms(3) obtain networking where "flattenKindConfigNetworking nm = (networking, Some err)"
    by (cases "flattenKindConfigNetworking nm") simp
  with assms(1,2) show ?thesis
    by (simp add: flattenKindConfig_def Let_def nodes_loop_eq)
qed

lemma nodes_loop_keeps:
  assumes "nodes_loop nodes obj = Inr c"
  shows "RuntimeConfig c = RuntimeConfig obj \<and> FeatureGates c = FeatureGates obj"
  using assms by (auto simp: nodes_loop_eq split: option.splits)

lemma flattenKindConfig_Inr:
  assumes "flattenKindConfig kc = Inr c"
  shows "RuntimeConfig c = map_option (\<lambda>rc. runtime_config_loop rc []) (getStringMap kc ''runtime_config'')"
    and "FeatureGates c = map_option (\<lambda>fg. feature_gates_loop fg []) (getStringMap kc ''feature_gates'')"
  using assms
  by (auto simp: flattenKindConfig_def Let_def zero_Cluster_def
           dest!: nodes_loop_keeps
           split: sum.splits list.splits prod.splits option.splits)

lemma flattenKindConfig_isl:
  "isl (flattenKindConfig kc) \<longleftrightarrow>
     List.find (\<lambda>n. snd (flattenKindConfigNodes n) \<noteq> None) (range_of (getMapSlice kc ''node'')) \<noteq> None
     \<or> (\<exists>nm rest. range_of (getMapSlice kc ''networking'') = nm # rest
                   \<and> snd (flattenKindConfigNetworking nm) \<noteq> None)"
  by (auto simp: flattenKindConfig_def Let_def nodes_loop_eq split: sum.splits list.splits prod.splits option.splits)

lemma find_failing:
  assumes "\<exists>x\<in>set xs. P x"
  obtains x where "List.find P xs = Some x" "x \<in> set xs" "P x"
proof -
  from assms have "List.find P xs \<noteq> None" by (auto simp: find_None_iff)
  then obtain x where x: "List.find P xs = Some x" by blast
  then have "x \<in> set xs" "P x" by (auto simp: find_Some_iff)
  with x that show thesis by blast
qed

lemma nodes_port_mapping_error:
  assumes "\<exists>p\<in>set (range_of (getMapSlice nc ''extra_port_mappings'')).
             snd (flattenKindConfigExtraPortMappings p) \<noteq> None"
  shows "\<exists>p\<in>set (range_of (getMapSlice nc ''extra_port_mappings'')). \<exists>err.
           snd (flattenKindConfigExtraPortMappings p) = Some err
           \<and> snd (flattenKindConfigNodes nc) = Some (Errorf ''failed to flatten port mapping configuration: '' err)"
proof -
  from assms obtain p where p:
    "List.find (\<lambda>p. snd (flattenKindConfigExtraPortMappings p) \<noteq> None)
       (range_of (getMapSlice nc ''extra_port_mappings'')) = Some p"
    "p \<in> set (range_of (getMapSlice nc ''extra_port_mappings''))"
    "snd (flattenKindConfigExtraPortMappings p) \<noteq> None"
    by (rule find_failing)
  from p(3) obtain err where err: "snd (flattenKindConfigExtraPortMappings p) = Some err" by blast
  have "snd (flattenKindConfigNodes nc) = Some (Errorf ''failed to flatten port mapping configuration: '' err)"
    by (simp only: nodes_err port_mappings_loop_err p(1) err option.case)
  with p(2) err show ?thesis by blast
qed

lemma cluster_node_error:
  assumes "\<exists>n\<in>set (range_of (getMapSlice kc ''node'')). snd (flattenKindConfigNodes n) \<noteq> None"
  shows "\<exists>n\<in>set (range_of (getMapSlice kc ''node'')). \<exists>err.
           snd (flattenKindConfigNodes n) = Some err
           \<and> flattenKindConfig kc = Inl (Errorf ''failed to flatten node configuration: '' err)"
proof -
  from assms obtain n where n:
    "List.find (\<lambda>n. snd (flattenKindConfigNodes n) \<noteq> None) (range_of (getMapSlice kc ''node'')) = Some n"
    "n \<in> set (range_of (getMapSlice kc ''node''))"
    "snd (flattenKindConfigNodes n) \<noteq> None"
    by (rule find_failing)
  from n(3) obtain err where err: "snd (flattenKindConfigNodes n) = Some err" by blast
  from flattenKindConfig_node_error [OF n(1)] err
  have "flattenKindConfig kc = Inl (Errorf ''failed to flatten node configuration: '' err)" by simp
  with n(2) err show ?thesis by blast
qed

lemma cluster_networking_error:
  assumes "\<forall>n\<in>set (range_of (getMapSlice kc ''node'')). snd (flattenKindConfigNodes n) = None"
    and "\<exists>rest. range_of (getMapSlice kc ''networking'') = nm # rest"
    and "snd (flattenKindConfigNetworking nm) \<noteq> None"
  shows "flattenKindConfig kc =
           Inl (Errorf ''failed to flatten networking configuration: ''
                  (port_error ''api_server_port'' (getInt nm ''api_server_port'')))"
proof -
  from assms(1) have none:
    "List.find (\<lambda>n. snd (flattenKindConfigNodes n) \<noteq> None) (range_of (getMapSlice kc ''node'')) = None"
    by (simp add: find_None_iff)
  from assms(2) obtain rest where rest: "range_of (getMapSlice kc ''networking'') = nm # rest" ..
  from assms(3) have "snd (flattenKindConfigNetworking nm)
      = Some (port_error ''api_server_port'' (getInt nm ''api_server_port''))"
    by (simp add: networking_error split: if_splits)
  from flattenKindConfig_networking_error [OF none rest this] show ?thesis .
qed

lemma node_errors_Is:
  assumes "snd (flattenKindConfigNodes nc) = Some err"
  shows "errors_Is err ErrPortOutOfRange"
proof -
  from assms have "\<exists>p pe. snd (flattenKindConfigExtraPortMappings p) = Some pe
      \<and> err = Errorf ''failed to flatten port mapping configuration: '' pe"
    by (auto simp: nodes_err port_mappings_loop_err find_Some_iff split: option.splits)
  then obtain p pe where pe: "snd (flattenKindConfigExtraPortMappings p) = Some pe"
    and err: "err = Errorf ''failed to flatten port mapping configuration: '' pe" by blast
  from pe have "errors_Is pe ErrPortOutOfRange"
    by (auto simp: port_mapping_error port_error_Is split: if_splits)
  with err show ?thesis by simp
qed

lemma cluster_errors_Is:
  assumes "flattenKindConfig kc = Inl err"
  shows "errors_Is err ErrPortOutOfRange"
proof (cases "List.find (\<lambda>n. snd (flattenKindConfigNodes n) \<noteq> None) (range_of (getMapSlice kc ''node''))")
  case (Some n)
  then obtain ne where ne: "snd (flattenKindConfigNodes n) = Some ne"
    by (auto simp: find_Some_iff)
  with flattenKindConfig_node_error [OF Some] assms
  have "err = Errorf ''failed to flatten node configuration: '' ne" by simp
  with node_errors_Is [OF ne] show ?thesis by simp
next
  case None
  from assms have "isl (flattenKindConfig kc)" by simp
  with None obtain nm rest where nm: "range_of (getMapSlice kc ''networking'') = nm # rest"
    "snd (flattenKindConfigNetworking nm) \<noteq> None"
    by (auto simp: flattenKindConfig_isl)
  from nm(2) obtain e where e: "snd (flattenKindConfigNetworking nm) = Some e" by blast
  then have "errors_Is e ErrPortOutOfRange"
    by (auto simp: networking_error port_error_Is split: if_splits)
  with flattenKindConfig_networking_error [OF None nm(1) e] assms show ?thesis by simp
qed

text \<open>Where every mapping of a node and every node of a cluster is accepted, the loops
  store them all, in order.\<close>

lemma port_mappings_loop_fst:
  "snd (port_mappings_loop pms obj) = None \<Longrightarrow>
     fst (port_mappings_loop pms obj) =
       obj\<lparr>ExtraPortMappings := ExtraPortMappings obj
             @ map (\<lambda>pm. fst (flattenKindConfigExtraPortMappings pm)) pms\<rparr>"
  by (induction pms arbitrary: obj) (auto split: prod.splits option.splits)

lemma port_mappings_loop_ok:
  "(\<forall>pm\<in>set pms. snd (flattenKindConfigExtraPortMappings pm) = None)
     \<Longrightarrow> snd (port_mappings_loop pms obj) = None"
  by (induction pms arbitrary: obj) (auto split: prod.splits option.splits)

lemma node_port_mappings_stored:
  assumes "\<forall>pm\<in>set (range_of (getMapSlice nc ''extra_port_mappings'')).
             snd (flattenKindConfigExtraPortMappings pm) = None"
  shows "snd (flattenKindConfigNodes nc) = None"
    and "ExtraPortMappings (fst (flattenKindConfigNodes nc)) =
           map (\<lambda>pm. fst (flattenKindConfigExtraPortMappings pm))
             (range_of (getMapSlice nc ''extra_port_mappings''))"
proof -
  define pms where "pms = range_of (getMapSlice nc ''extra_port_mappings'')"
  from assms have ok: "\<And>obj. snd (port_mappings_loop pms obj) = None"
    unfolding pms_def by (rule port_mappings_loop_ok)
  have shape: "\<And>obj. port_mappings_loop pms obj =
      (obj\<lparr>ExtraPortMappings := ExtraPortMappings obj
             @ map (\<lambda>pm. fst (flattenKindConfigExtraPortMappings pm)) pms\<rparr>, None)"
    using ok port_mappings_loop_fst [OF ok] by (simp add: prod_eq_iff)
  show "snd (flattenKindConfigNodes nc) = None"
    unfolding flattenKindConfigNodes_def Let_def pms_def [symmetric] shape by simp
  show "ExtraPortMappings (fst (flattenKindConfigNodes nc)) =
           map (\<lambda>pm. fst (flattenKindConfigExtraPortMappings pm))
             (range_of (getMapSlice nc ''extra_port_mappings''))"
    unfolding flattenKindConfigNodes_def Let_def pms_def [symmetric] shape
    by (simp add: zero_Node_def)
qed

lemma cluster_nodes_stored:
  assumes "\<forall>n\<in>set (range_of (getMapSlice kc ''node'')). snd (flattenKindConfigNodes n) = None"
    and "range_of (getMapSlice kc ''networking'') = []
         \<or> (\<exists>nm rest. range_of (getMapSlice kc ''networking'') = nm # rest
               \<and> snd (flattenKindConfigNetworking nm) = None)"
  shows "\<exists>c. flattenKindConfig kc = Inr c
           \<and> Nodes c = map (\<lambda>n. fst (flattenKindConfigNodes n)) (range_of (getMapSlice kc ''node''))
           \<and> Networking c = (case range_of (getMapSlice kc ''networking'') of
                                [] \<Rightarrow> zero_Networking
                              | nm # rest \<Rightarrow> fst (flattenKindConfigNetworking nm))"
proof -
  from assms(1) have none:
    "List.find (\<lambda>n. snd (flattenKindConfigNodes n) \<noteq> None) (range_of (getMapSlice kc ''node'')) = None"
    by (simp add: find_None_iff)
  from assms(2) show ?thesis
  proof
    assume "range_of (getMapSlice kc ''networking'') = []"
    with none show ?thesis
      by (simp add: flattenKindConfig_def Let_def nodes_loop_eq zero_Cluster_def split: option.splits)
  next
    assume "\<exists>nm rest. range_of (getMapSlice kc ''networking'') = nm # rest
               \<and> snd (flattenKindConfigNetworking nm) = None"
    then obtain nm rest where nm: "range_of (getMapSlice kc ''networking'') = nm # rest"
      and ok: "snd (flattenKindConfigNetworking nm) = None" by blast
    from ok obtain networking where "flattenKindConfigNetworking nm = (networking, None)"
      by (cases "flattenKindConfigNetworking nm") simp
    with none nm show ?thesis
      by (simp add: flattenKindConfig_def Let_def nodes_loop_eq zero_Cluster_def split: option.splits)
  qed
qed

lemma port_mapping_exact:
  assumes "snd (flattenKindConfigExtraPortMappings pm) = None"
  shows "sint (ContainerPort (fst (flattenKindConfigExtraPortMappings pm))) = sint (getInt pm ''container_port'')"
    and "sint (HostPort (fst (flattenKindConfigExtraPortMappings pm))) = sint (getInt pm ''host_port'')"
proof -
  from assms have "\<not> out_of_int32 (getInt pm ''container_port'')" "\<not> out_of_int32 (getInt pm ''host_port'')"
    by (auto simp: port_mapping_error split: if_splits)
  then show "sint (ContainerPort (fst (flattenKindConfigExtraPortMappings pm))) = sint (getInt pm ''container_port'')"
    and "sint (HostPort (fst (flattenKindConfigExtraPortMappings pm))) = sint (getInt pm ''host_port'')"
    by (simp_all add: port_mapping_ports [OF assms] to_int32_exact)
qed

lemma networking_exact:
  assumes "snd (flattenKindConfigNetworking nm) = None"
  shows "sint (APIServerPort (fst (flattenKindConfigNetworking nm))) = sint (getInt nm ''api_server_port'')"
proof -
  from assms have "\<not> out_of_int32 (getInt nm ''api_server_port'')"
    by (auto simp: networking_error split: if_splits)
  then show ?thesis
    by (simp add: networking_port [OF assms] to_int32_exact)
qed

text \<open>
  What the range checks do. A \<open>container_port\<close>, \<open>host_port\<close> or \<open>api_server_port\<close> inside the
  signed 32-bit range (the bounds -2147483648 and 2147483647 included) is accepted and
  kept with its exact value; a value outside it makes the flattening of that map return
  the error \<open>ErrPortOutOfRange\<close> wrapped in a message that names the field and the value.
  The error ends the node (wrapped once more by \<open>flattenKindConfigNodes\<close>) and the whole
  cluster (wrapped by \<open>flattenKindConfig\<close>, for a port mapping of any node and for the
  networking map when it is the first element of a list), and every error
  \<open>flattenKindConfig\<close> returns is such an error.
\<close>

theorem port_range_checked:
  "(let cp = getInt pm ''container_port''; hp = getInt pm ''host_port'';
        r = flattenKindConfigExtraPortMappings pm
    in snd r = (if sint cp < - 2147483648 \<or> 2147483647 < sint cp
                  then Some (port_error ''container_port'' cp)
                else if sint hp < - 2147483648 \<or> 2147483647 < sint hp
                  then Some (port_error ''host_port'' hp)
                else None)
       \<and> (snd r = None \<longrightarrow> sint (ContainerPort (fst r)) = sint cp \<and> sint (HostPort (fst r)) = sint hp))
   \<and> (let ap = getInt nm ''api_server_port''; r = flattenKindConfigNetworking nm
      in snd r = (if sint ap < - 2147483648 \<or> 2147483647 < sint ap
                    then Some (port_error ''api_server_port'' ap)
                  else None)
         \<and> (snd r = None \<longrightarrow> sint (APIServerPort (fst r)) = sint ap))
   \<and> Error (port_error field v) =
         field @ '' value '' @ fmt_d (sint v)
           @ '' (must be between -2147483648 and 2147483647): port value out of valid range''
   \<and> errors_Is (port_error field v) ErrPortOutOfRange
   \<and> ((\<exists>p\<in>set (range_of (getMapSlice nc ''extra_port_mappings'')).
          snd (flattenKindConfigExtraPortMappings p) \<noteq> None)
       \<longrightarrow> (\<exists>p\<in>set (range_of (getMapSlice nc ''extra_port_mappings'')). \<exists>err.
              snd (flattenKindConfigExtraPortMappings p) = Some err
              \<and> snd (flattenKindConfigNodes nc)
                  = Some (Errorf ''failed to flatten port mapping configuration: '' err)))
   \<and> ((\<exists>n\<in>set (range_of (getMapSlice kc ''node'')). snd (flattenKindConfigNodes n) \<noteq> None)
       \<longrightarrow> (\<exists>n\<in>set (range_of (getMapSlice kc ''node'')). \<exists>err.
              snd (flattenKindConfigNodes n) = Some err
              \<and> flattenKindConfig kc = Inl (Errorf ''failed to flatten node configuration: '' err)))
   \<and> ((\<forall>n\<in>set (range_of (getMapSlice kc ''node'')). snd (flattenKindConfigNodes n) = None)
        \<and> (\<exists>rest. range_of (getMapSlice kc ''networking'') = nm # rest)
        \<and> snd (flattenKindConfigNetworking nm) \<noteq> None
       \<longrightarrow> flattenKindConfig kc =
             Inl (Errorf ''failed to flatten networking configuration: ''
                    (port_error ''api_server_port'' (getInt nm ''api_server_port''))))
   \<and> (\<forall>err. flattenKindConfig kc = Inl err \<longrightarrow> errors_Is err ErrPortOutOfRange)"
proof -
  have pm_err: "snd (flattenKindConfigExtraPortMappings pm) =
      (if sint (getInt pm ''container_port'') < - 2147483648 \<or> 2147483647 < sint (getInt pm ''container_port'')
         then Some (port_error ''container_port'' (getInt pm ''container_port''))
       else if sint (getInt pm ''host_port'') < - 2147483648 \<or> 2147483647 < sint (getInt pm ''host_port'')
         then Some (port_error ''host_port'' (getInt pm ''host_port''))
       else None)"
    by (simp only: port_mapping_error out_of_int32_iff)
  have pm_ok: "snd (flattenKindConfigExtraPortMappings pm) = None \<longrightarrow>
      sint (ContainerPort (fst (flattenKindConfigExtraPortMappings pm))) = sint (getInt pm ''container_port'')
      \<and> sint (HostPort (fst (flattenKindConfigExtraPortMappings pm))) = sint (getInt pm ''host_port'')"
  proof
    assume ok: "snd (flattenKindConfigExtraPortMappings pm) = None"
    then have "\<not> out_of_int32 (getInt pm ''container_port'')" "\<not> out_of_int32 (getInt pm ''host_port'')"
      by (auto simp: port_mapping_error split: if_splits)
    then show "sint (ContainerPort (fst (flattenKindConfigExtraPortMappings pm))) = sint (getInt pm ''container_port'')
      \<and> sint (HostPort (fst (flattenKindConfigExtraPortMappings pm))) = sint (getInt pm ''host_port'')"
      by (simp add: port_mapping_ports [OF ok] to_int32_exact)
  qed
  have nm_err: "snd (flattenKindConfigNetworking nm) =
      (if sint (getInt nm ''api_server_port'') < - 2147483648 \<or> 2147483647 < sint (getInt nm ''api_server_port'')
         then Some (port_error ''api_server_port'' (getInt nm ''api_server_port''))
       else None)"
    by (simp only: networking_error out_of_int32_iff)
  have nm_ok: "snd (flattenKindConfigNetworking nm) = None \<longrightarrow>
      sint (APIServerPort (fst (flattenKindConfigNetworking nm))) = sint (getInt nm ''api_server_port'')"
  proof
    assume ok: "snd (flattenKindConfigNetworking nm) = None"
    then have "\<not> out_of_int32 (getInt nm ''api_server_port'')"
      by (auto simp: networking_error split: if_splits)
    then show "sint (APIServerPort (fst (flattenKindConfigNetworking nm))) = sint (getInt nm ''api_server_port'')"
      by (simp add: networking_port [OF ok] to_int32_exact)
  qed
  show ?thesis
    unfolding Let_def
    using pm_err pm_ok nm_err nm_ok port_error_text [of field v] port_error_Is [of field v]
      nodes_port_mapping_error [of nc] cluster_node_error [of kc]
      cluster_networking_error [of kc nm] cluster_errors_Is [of kc]
    by blast
qed

theorem port_range_checked_witness:
  "snd (flattenKindConfigExtraPortMappings
          [(''container_port'', GInt 2147483647), (''host_port'', GInt (- 2147483648))]) = None
   \<and> sint (ContainerPort (fst (flattenKindConfigExtraPortMappings
          [(''container_port'', GInt 2147483647), (''host_port'', GInt (- 2147483648))]))) = 2147483647
   \<and> sint (HostPort (fst (flattenKindConfigExtraPortMappings
          [(''container_port'', GInt 2147483647), (''host_port'', GInt (- 2147483648))]))) = - 2147483648
   \<and> Error (port_error ''host_port'' (- 2147483649)) =
        ''host_port value -2147483649 (must be between -2147483648 and 2147483647): port value out of valid range''
   \<and> flattenKindConfig [(''networking'', GSlice [GMap [(''api_server_port'', GInt 2147483648)]])] =
        Inl (Errorf ''failed to flatten networking configuration: ''
               (port_error ''api_server_port'' 2147483648))
   \<and> snd (flattenKindConfigNodes
        [(''extra_port_mappings'', GSlice [GMap [(''container_port'', GInt 80), (''host_port'', GInt (- 2147483649))]])])
      = Some (Errorf ''failed to flatten port mapping configuration: '' (port_error ''host_port'' (- 2147483649)))
   \<and> flattenKindConfig
        [(''node'', GSlice [GMap [(''extra_port_mappings'',
            GSlice [GMap [(''container_port'', GInt 80), (''host_port'', GInt (- 2147483649))]])]])]
      = Inl (Errorf ''failed to flatten node configuration: ''
              (Errorf ''failed to flatten port mapping configuration: '' (port_error ''host_port'' (- 2147483649))))"
  using port_range_checked
          [of "[(''container_port'', GInt 2147483647), (''host_port'', GInt (- 2147483648))]"
              "[(''api_server_port'', GInt 2147483648)]"
              "''host_port''" "- 2147483649"
              "[(''extra_port_mappings'', GSlice [GMap [(''container_port'', GInt 80), (''host_port'', GInt (- 2147483649))]])]"
              "[(''networking'', GSlice [GMap [(''api_server_port'', GInt 2147483648)]])]"]
        port_range_checked
          [of "[(''container_port'', GInt 80), (''host_port'', GInt (- 2147483649))]"
              "[(''api_server_port'', GInt 6443)]"
              "''container_port''" "2147483648"
              "[(''extra_port_mappings'', GSlice [GMap [(''container_port'', GInt 80), (''host_port'', GInt (- 2147483649))]])]"
              "[(''node'', GSlice [GMap [(''extra_port_mappings'',
                 GSlice [GMap [(''container_port'', GInt 80), (''host_port'', GInt (- 2147483649))]])]])]"]
  by (simp add: Let_def getInt_def getMapSlice_def range_of_def fmt_d_def fmt_nat.simps digit_char_def)

text \<open>
  Where the accepted values go. If every port mapping of a node is accepted, the node is
  returned without error and holds all of them, in order, each with the exact values of
  its two ports. If every node of a cluster is accepted, and the networking list is
  empty or its first map is accepted, \<open>flattenKindConfig\<close> returns a cluster that holds all
  the nodes, in order, and the networking of that first map with the exact value of its
  port (the zero networking when the list is empty).
\<close>

theorem port_values_stored:
  "((\<forall>p\<in>set (range_of (getMapSlice nc ''extra_port_mappings'')).
        snd (flattenKindConfigExtraPortMappings p) = None)
     \<longrightarrow> snd (flattenKindConfigNodes nc) = None
         \<and> ExtraPortMappings (fst (flattenKindConfigNodes nc)) =
              map (\<lambda>p. fst (flattenKindConfigExtraPortMappings p))
                (range_of (getMapSlice nc ''extra_port_mappings''))
         \<and> map (\<lambda>m. sint (ContainerPort m)) (ExtraPortMappings (fst (flattenKindConfigNodes nc))) =
              map (\<lambda>p. sint (getInt p ''container_port'')) (range_of (getMapSlice nc ''extra_port_mappings''))
         \<and> map (\<lambda>m. sint (HostPort m)) (ExtraPortMappings (fst (flattenKindConfigNodes nc))) =
              map (\<lambda>p. sint (getInt p ''host_port'')) (range_of (getMapSlice nc ''extra_port_mappings'')))
   \<and> ((\<forall>n\<in>set (range_of (getMapSlice kc ''node'')). snd (flattenKindConfigNodes n) = None)
        \<and> (range_of (getMapSlice kc ''networking'') = []
            \<or> (\<exists>rest. range_of (getMapSlice kc ''networking'') = nm # rest)
                \<and> snd (flattenKindConfigNetworking nm) = None)
     \<longrightarrow> (\<exists>c. flattenKindConfig kc = Inr c
              \<and> Nodes c = map (\<lambda>n. fst (flattenKindConfigNodes n)) (range_of (getMapSlice kc ''node''))
              \<and> (range_of (getMapSlice kc ''networking'') = [] \<longrightarrow> Networking c = zero_Networking)
              \<and> ((\<exists>rest. range_of (getMapSlice kc ''networking'') = nm # rest) \<longrightarrow>
                    Networking c = fst (flattenKindConfigNetworking nm)
                    \<and> sint (APIServerPort (Networking c)) = sint (getInt nm ''api_server_port''))))"
proof (intro conjI impI)
  assume ok: "\<forall>p\<in>set (range_of (getMapSlice nc ''extra_port_mappings'')).
        snd (flattenKindConfigExtraPortMappings p) = None"
  show "snd (flattenKindConfigNodes nc) = None"
    by (rule node_port_mappings_stored [OF ok])
  show stored: "ExtraPortMappings (fst (flattenKindConfigNodes nc)) =
              map (\<lambda>p. fst (flattenKindConfigExtraPortMappings p))
                (range_of (getMapSlice nc ''extra_port_mappings''))"
    by (rule node_port_mappings_stored [OF ok])
  from ok show "map (\<lambda>m. sint (ContainerPort m)) (ExtraPortMappings (fst (flattenKindConfigNodes nc))) =
              map (\<lambda>p. sint (getInt p ''container_port'')) (range_of (getMapSlice nc ''extra_port_mappings''))"
    unfolding stored by (simp add: port_mapping_exact)
  from ok show "map (\<lambda>m. sint (HostPort m)) (ExtraPortMappings (fst (flattenKindConfigNodes nc))) =
              map (\<lambda>p. sint (getInt p ''host_port'')) (range_of (getMapSlice nc ''extra_port_mappings''))"
    unfolding stored by (simp add: port_mapping_exact)
next
  assume a: "(\<forall>n\<in>set (range_of (getMapSlice kc ''node'')). snd (flattenKindConfigNodes n) = None)
        \<and> (range_of (getMapSlice kc ''networking'') = []
            \<or> (\<exists>rest. range_of (getMapSlice kc ''networking'') = nm # rest)
                \<and> snd (flattenKindConfigNetworking nm) = None)"
  then have nodes: "\<forall>n\<in>set (range_of (getMapSlice kc ''node'')). snd (flattenKindConfigNodes n) = None"
    and net: "range_of (getMapSlice kc ''networking'') = []
            \<or> (\<exists>rest. range_of (getMapSlice kc ''networking'') = nm # rest)
                \<and> snd (flattenKindConfigNetworking nm) = None"
    by blast+
  from net have net': "range_of (getMapSlice kc ''networking'') = []
         \<or> (\<exists>nm rest. range_of (getMapSlice kc ''networking'') = nm # rest
               \<and> snd (flattenKindConfigNetworking nm) = None)"
    by blast
  from cluster_nodes_stored [OF nodes net'] obtain c where c: "flattenKindConfig kc = Inr c"
    "Nodes c = map (\<lambda>n. fst (flattenKindConfigNodes n)) (range_of (getMapSlice kc ''node''))"
    "Networking c = (case range_of (getMapSlice kc ''networking'') of
                                [] \<Rightarrow> zero_Networking
                              | nm # rest \<Rightarrow> fst (flattenKindConfigNetworking nm))"
    by blast
  have empty: "range_of (getMapSlice kc ''networking'') = [] \<longrightarrow> Networking c = zero_Networking"
    using c(3) by simp
  have first: "(\<exists>rest. range_of (getMapSlice kc ''networking'') = nm # rest) \<longrightarrow>
                    Networking c = fst (flattenKindConfigNetworking nm)
                    \<and> sint (APIServerPort (Networking c)) = sint (getInt nm ''api_server_port'')"
  proof
    assume "\<exists>rest. range_of (getMapSlice kc ''networking'') = nm # rest"
    then obtain rest where r: "range_of (getMapSlice kc ''networking'') = nm # rest" ..
    with net have ok: "snd (flattenKindConfigNetworking nm) = None" by simp
    from r c(3) have "Networking c = fst (flattenKindConfigNetworking nm)" by simp
    with networking_exact [OF ok]
    show "Networking c = fst (flattenKindConfigNetworking nm)
                    \<and> sint (APIServerPort (Networking c)) = sint (getInt nm ''api_server_port'')"
      by simp
  qed
  from c(1,2) empty first
  show "\<exists>c. flattenKindConfig kc = Inr c
              \<and> Nodes c = map (\<lambda>n. fst (flattenKindConfigNodes n)) (range_of (getMapSlice kc ''node''))
              \<and> (range_of (getMapSlice kc ''networking'') = [] \<longrightarrow> Networking c = zero_Networking)
              \<and> ((\<exists>rest. range_of (getMapSlice kc ''networking'') = nm # rest) \<longrightarrow>
                    Networking c = fst (flattenKindConfigNetworking nm)
                    \<and> sint (APIServerPort (Networking c)) = sint (getInt nm ''api_server_port''))"
    by (intro exI [of _ c] conjI)
qed

theorem port_values_stored_witness:
  "map (\<lambda>m. sint (ContainerPort m))
     (ExtraPortMappings (fst (flattenKindConfigNodes
        [(''extra_port_mappings'',
          GSlice [GMap [(''container_port'', GInt 2147483647), (''host_port'', GInt (- 2147483648))],
                  GMap [(''container_port'', GInt 80), (''host_port'', GInt 8080)]])])))
     = [2147483647, 80]
   \<and> map (\<lambda>m. sint (HostPort m))
     (ExtraPortMappings (fst (flattenKindConfigNodes
        [(''extra_port_mappings'',
          GSlice [GMap [(''container_port'', GInt 2147483647), (''host_port'', GInt (- 2147483648))],
                  GMap [(''container_port'', GInt 80), (''host_port'', GInt 8080)]])])))
     = [- 2147483648, 8080]
   \<and> (\<exists>c. flattenKindConfig
              [(''node'', GSlice [GMap [(''extra_port_mappings'',
                  GSlice [GMap [(''container_port'', GInt 2147483647), (''host_port'', GInt (- 2147483648))],
                          GMap [(''container_port'', GInt 80), (''host_port'', GInt 8080)]])]]),
               (''networking'', GSlice [GMap [(''api_server_port'', GInt 6443)]])] = Inr c
          \<and> map (\<lambda>n. map (\<lambda>m. sint (ContainerPort m)) (ExtraPortMappings n)) (Nodes c) = [[2147483647, 80]]
          \<and> sint (APIServerPort (Networking c)) = 6443)"
proof -
  let ?pm1 = "[(''container_port'', GInt 2147483647), (''host_port'', GInt (- 2147483648))]"
  let ?pm2 = "[(''container_port'', GInt 80), (''host_port'', GInt 8080)]"
  let ?nc = "[(''extra_port_mappings'', GSlice [GMap ?pm1, GMap ?pm2])]"
  let ?nm = "[(''api_server_port'', GInt 6443)]"
  let ?kc = "[(''node'', GSlice [GMap ?nc]), (''networking'', GSlice [GMap ?nm])]"
  note T = port_values_stored [of ?nc ?kc ?nm]
  have pms: "range_of (getMapSlice ?nc ''extra_port_mappings'') = [?pm1, ?pm2]"
    by (simp add: getMapSlice_def range_of_def)
  have ok: "\<forall>p\<in>set (range_of (getMapSlice ?nc ''extra_port_mappings'')).
              snd (flattenKindConfigExtraPortMappings p) = None"
    unfolding pms by (simp add: port_mapping_error out_of_int32_iff getInt_def)
  note N = T [THEN conjunct1, THEN mp, OF ok]
  have node_ok: "snd (flattenKindConfigNodes ?nc) = None"
    by (rule N [THEN conjunct1])
  have cp: "map (\<lambda>m. sint (ContainerPort m)) (ExtraPortMappings (fst (flattenKindConfigNodes ?nc))) =
              map (\<lambda>p. sint (getInt p ''container_port'')) (range_of (getMapSlice ?nc ''extra_port_mappings''))"
    by (rule N [THEN conjunct2, THEN conjunct2, THEN conjunct1])
  have hp: "map (\<lambda>m. sint (HostPort m)) (ExtraPortMappings (fst (flattenKindConfigNodes ?nc))) =
              map (\<lambda>p. sint (getInt p ''host_port'')) (range_of (getMapSlice ?nc ''extra_port_mappings''))"
    by (rule N [THEN conjunct2, THEN conjunct2, THEN conjunct2])
  from cp have cp': "map (\<lambda>m. sint (ContainerPort m)) (ExtraPortMappings (fst (flattenKindConfigNodes ?nc)))
      = [2147483647, 80]"
    unfolding pms by (simp add: getInt_def)
  from hp have hp': "map (\<lambda>m. sint (HostPort m)) (ExtraPortMappings (fst (flattenKindConfigNodes ?nc)))
      = [- 2147483648, 8080]"
    unfolding pms by (simp add: getInt_def)
  have nodes: "range_of (getMapSlice ?kc ''node'') = [?nc]"
    by (simp add: getMapSlice_def range_of_def)
  have net: "range_of (getMapSlice ?kc ''networking'') = [?nm]"
    by (simp add: getMapSlice_def range_of_def)
  have net_ok: "snd (flattenKindConfigNetworking ?nm) = None"
    by (simp add: networking_error out_of_int32_iff getInt_def)
  have hyp: "(\<forall>n\<in>set (range_of (getMapSlice ?kc ''node'')). snd (flattenKindConfigNodes n) = None)
        \<and> (range_of (getMapSlice ?kc ''networking'') = []
            \<or> (\<exists>rest. range_of (getMapSlice ?kc ''networking'') = ?nm # rest)
                \<and> snd (flattenKindConfigNetworking ?nm) = None)"
    unfolding nodes net using node_ok net_ok by simp
  from T [THEN conjunct2, THEN mp, OF hyp] obtain c where
    c: "flattenKindConfig ?kc = Inr c"
    and n: "Nodes c = map (\<lambda>n. fst (flattenKindConfigNodes n)) (range_of (getMapSlice ?kc ''node''))"
    and p: "(\<exists>rest. range_of (getMapSlice ?kc ''networking'') = ?nm # rest) \<longrightarrow>
                    Networking c = fst (flattenKindConfigNetworking ?nm)
                    \<and> sint (APIServerPort (Networking c)) = sint (getInt ?nm ''api_server_port'')"
    by (elim exE conjE)
  from n cp' have n': "map (\<lambda>n. map (\<lambda>m. sint (ContainerPort m)) (ExtraPortMappings n)) (Nodes c) = [[2147483647, 80]]"
    unfolding nodes by simp
  have listed: "\<exists>rest. range_of (getMapSlice ?kc ''networking'') = ?nm # rest"
    unfolding net by simp
  from p [THEN mp, OF listed, THEN conjunct2] have p': "sint (APIServerPort (Networking c)) = 6443"
    by (simp add: getInt_def)
  from c n' p' have "\<exists>c. flattenKindConfig ?kc = Inr c
          \<and> map (\<lambda>n. map (\<lambda>m. sint (ContainerPort m)) (ExtraPortMappings n)) (Nodes c) = [[2147483647, 80]]
          \<and> sint (APIServerPort (Networking c)) = 6443"
    by (intro exI [of _ c] conjI)
  with cp' hp' show ?thesis by (intro conjI)
qed

text \<open>
  Claim C4. The claim fails for the networking map of the configuration the provider
  receives. The schema declares \<open>networking\<close> as a single nested block, so the decoder
  delivers it as a map; \<open>flattenKindConfig\<close> looks under \<open>networking\<close> for a slice of maps,
  finds none and skips the block. For \<open>networking { api_server_port = 2147483648 }\<close> the
  normalization returns a cluster and no error, and for the port 6443 the cluster it
  returns has the zero networking, whose port is 0. Yet \<open>flattenKindConfigNetworking\<close>
  rejects the map with the port 2147483648, and so does \<open>flattenKindConfig\<close> when the map
  comes as the first element of a list, the shape the \<open>node\<close> block has.
\<close>

theorem networking_port_unchecked:
  "parseKindConfigFromFramework (Known [example_kind_config 2147483648]) =
     Inr (Some \<lparr>Kind = ''Cluster'', APIVersion = ''kind.x-k8s.io/v1alpha4'', Nodes = [],
                 Networking = zero_Networking, ContainerdConfigPatches = None,
                 RuntimeConfig = None, FeatureGates = None\<rparr>)
   \<and> parseKindConfigFromFramework (Known [example_kind_config 6443]) =
     Inr (Some \<lparr>Kind = ''Cluster'', APIVersion = ''kind.x-k8s.io/v1alpha4'', Nodes = [],
                 Networking = zero_Networking, ContainerdConfigPatches = None,
                 RuntimeConfig = None, FeatureGates = None\<rparr>)
   \<and> APIServerPort zero_Networking = 0
   \<and> snd (flattenKindConfigNetworking [(''api_server_port'', GInt 2147483648)]) =
        Some (port_error ''api_server_port'' 2147483648)
   \<and> flattenKindConfig
        [(''kind'', GString ''Cluster''),
         (''networking'', GSlice [GMap [(''api_server_port'', GInt 2147483648)]])] =
        Inl (Errorf ''failed to flatten networking configuration: ''
               (port_error ''api_server_port'' 2147483648))"
proof (intro conjI)
  show "parseKindConfigFromFramework (Known [example_kind_config 2147483648]) =
     Inr (Some \<lparr>Kind = ''Cluster'', APIVersion = ''kind.x-k8s.io/v1alpha4'', Nodes = [],
                 Networking = zero_Networking, ContainerdConfigPatches = None,
                 RuntimeConfig = None, FeatureGates = None\<rparr>)"
    by (simp add: parseKindConfigFromFramework_def example_kind_config_def objectToMap_def
          flattenKindConfig_def Let_def getString_def getMapSlice_def getStringSlice_def
          getStringMap_def range_of_def zero_Cluster_def)
  show "parseKindConfigFromFramework (Known [example_kind_config 6443]) =
     Inr (Some \<lparr>Kind = ''Cluster'', APIVersion = ''kind.x-k8s.io/v1alpha4'', Nodes = [],
                 Networking = zero_Networking, ContainerdConfigPatches = None,
                 RuntimeConfig = None, FeatureGates = None\<rparr>)"
    by (simp add: parseKindConfigFromFramework_def example_kind_config_def objectToMap_def
          flattenKindConfig_def Let_def getString_def getMapSlice_def getStringSlice_def
          getStringMap_def range_of_def zero_Cluster_def)
  show "APIServerPort zero_Networking = 0"
    by (simp add: zero_Networking_def)
  show rejected: "snd (flattenKindConfigNetworking [(''api_server_port'', GInt 2147483648)]) =
        Some (port_error ''api_server_port'' 2147483648)"
    by (simp add: networking_error out_of_int32_iff getInt_def)
  show "flattenKindConfig
        [(''kind'', GString ''Cluster''),
         (''networking'', GSlice [GMap [(''api_server_port'', GInt 2147483648)]])] =
        Inl (Errorf ''failed to flatten networking configuration: ''
               (port_error ''api_server_port'' 2147483648))"
    by (rule flattenKindConfig_networking_error [where rest = "[]", OF _ _ rejected])
       (simp_all add: getMapSlice_def range_of_def)
qed

subsection \<open>Enum fields\<close>










subsection \<open>String maps\<close>

lemma string_entries_strings:
  "string_entries (map (\<lambda>(k, v). (k, GString v)) kvs) = kvs"
  by (induction kvs) auto

lemma getStringMap_strings:
  assumes "map_of kc key = Some (GMap (map (\<lambda>(k, v). (k, GString v)) kvs))"
  shows "getStringMap kc key = Some kvs"
  using assms by (simp add: getStringMap_def string_entries_strings)

subsection \<open>Runtime configuration\<close>

lemma runtime_config_loop_other:
  "x \<notin> (\<lambda>k. ReplaceAll k CHR ''_'' CHR ''/'') ` fst ` set rc \<Longrightarrow>
   map_of (runtime_config_loop rc m) x = map_of m x"
  by (induction rc arbitrary: m) (auto simp: update_conv')

lemma runtime_config_loop_stored:
  assumes "distinct (map fst rc)"
    and "inj_on (\<lambda>k. ReplaceAll k CHR ''_'' CHR ''/'') (fst ` set rc)"
    and "(k, v) \<in> set rc"
  shows "map_of (runtime_config_loop rc m) (ReplaceAll k CHR ''_'' CHR ''/'') = Some v"
  using assms
proof (induction rc arbitrary: m)
  case Nil
  then show ?case by simp
next
  case (Cons kv rc)
  obtain k0 v0 where kv: "kv = (k0, v0)" by (cases kv)
  from Cons.prems(1) kv have k0: "k0 \<notin> fst ` set rc" and d: "distinct (map fst rc)" by auto
  from Cons.prems(2) kv have inj: "inj_on (\<lambda>k. ReplaceAll k CHR ''_'' CHR ''/'') (fst ` set rc)"
    by (auto simp: inj_on_def)
  show ?case
  proof (cases "(k, v) = (k0, v0)")
    case True
    have "ReplaceAll k0 CHR ''_'' CHR ''/'' \<notin> (\<lambda>k. ReplaceAll k CHR ''_'' CHR ''/'') ` fst ` set rc"
    proof
      assume "ReplaceAll k0 CHR ''_'' CHR ''/'' \<in> (\<lambda>k. ReplaceAll k CHR ''_'' CHR ''/'') ` fst ` set rc"
      then obtain k' where k': "k' \<in> fst ` set rc"
        and eq: "ReplaceAll k0 CHR ''_'' CHR ''/'' = ReplaceAll k' CHR ''_'' CHR ''/''" by blast
      from Cons.prems(2) kv k' eq have "k0 = k'" by (auto simp: inj_on_def)
      with k0 k' show False by simp
    qed
    from runtime_config_loop_other [OF this] True kv show ?thesis
      by (simp add: update_conv')
  next
    case False
    with Cons.prems(3) kv have "(k, v) \<in> set rc" by auto
    from Cons.IH [OF d inj this] kv show ?thesis by simp
  qed
qed

lemma runtime_config_loop_keys:
  "fst ` set (runtime_config_loop rc m) = fst ` set m \<union> (\<lambda>k. ReplaceAll k CHR ''_'' CHR ''/'') ` fst ` set rc"
proof (induction rc arbitrary: m)
  case Nil
  then show ?case by simp
next
  case (Cons kv rc)
  obtain k v where kv: "kv = (k, v)" by (cases kv)
  have "fst ` set (runtime_config_loop (kv # rc) m) =
          fst ` set (AList.update (ReplaceAll k CHR ''_'' CHR ''/'') v m)
            \<union> (\<lambda>k. ReplaceAll k CHR ''_'' CHR ''/'') ` fst ` set rc"
    using Cons.IH kv by simp
  then show ?case using kv by (simp add: dom_update)
qed

lemma runtime_config_loop_distinct:
  "distinct (map fst m) \<Longrightarrow> distinct (map fst (runtime_config_loop rc m))"
  by (induction rc arbitrary: m) (auto simp: distinct_update)

lemma ReplaceAll_inj:
  assumes "\<forall>k\<in>ks. CHR ''/'' \<notin> set k"
  shows "inj_on (\<lambda>k. ReplaceAll k CHR ''_'' CHR ''/'') ks"
proof (rule inj_onI)
  fix a b assume a: "a \<in> ks" and b: "b \<in> ks"
    and eq: "ReplaceAll a CHR ''_'' CHR ''/'' = ReplaceAll b CHR ''_'' CHR ''/''"
  have "\<And>b. CHR ''/'' \<notin> set a \<Longrightarrow> CHR ''/'' \<notin> set b \<Longrightarrow>
      ReplaceAll a CHR ''_'' CHR ''/'' = ReplaceAll b CHR ''_'' CHR ''/'' \<Longrightarrow> a = b"
  proof (induction a)
    case Nil
    then show ?case by (simp add: ReplaceAll_def)
  next
    case (Cons x a)
    then obtain y b' where b': "b = y # b'" by (cases b) (auto simp: ReplaceAll_def)
    with Cons.prems have "x = y" by (auto simp: ReplaceAll_def split: if_splits)
    moreover from Cons.prems b' have "a = b'"
      by (intro Cons.IH) (auto simp: ReplaceAll_def)
    ultimately show ?case using b' by simp
  qed
  with a b eq assms show "a = b" by blast
qed

lemma ReplaceAll_no_old: "old \<noteq> new \<Longrightarrow> old \<notin> set (ReplaceAll s old new)"
  by (auto simp: ReplaceAll_def)

subsection \<open>Feature gates\<close>

lemma feature_gates_loop_other:
  "x \<notin> fst ` set fg \<Longrightarrow> map_of (feature_gates_loop fg m) x = map_of m x"
  by (induction fg arbitrary: m) (auto simp: update_conv')

lemma feature_gates_loop_stored:
  assumes "distinct (map fst fg)" and "(k, v) \<in> set fg"
  shows "map_of (feature_gates_loop fg m) k = Some (EqualFold v ''true'')"
  using assms
proof (induction fg arbitrary: m)
  case Nil
  then show ?case by simp
next
  case (Cons kv fg)
  obtain k0 v0 where kv: "kv = (k0, v0)" by (cases kv)
  from Cons.prems(1) kv have k0: "k0 \<notin> fst ` set fg" and d: "distinct (map fst fg)" by auto
  show ?case
  proof (cases "(k, v) = (k0, v0)")
    case True
    with feature_gates_loop_other [OF k0] kv show ?thesis by (simp add: update_conv')
  next
    case False
    with Cons.prems(2) kv have "(k, v) \<in> set fg" by auto
    from Cons.IH [OF d this] kv show ?thesis by simp
  qed
qed

lemma feature_gates_loop_keys:
  "fst ` set (feature_gates_loop fg m) = fst ` set m \<union> fst ` set fg"
proof (induction fg arbitrary: m)
  case Nil
  then show ?case by simp
next
  case (Cons kv fg)
  obtain k v where kv: "kv = (k, v)" by (cases kv)
  have "fst ` set (feature_gates_loop (kv # fg) m) =
          fst ` set (AList.update k (EqualFold v ''true'') m) \<union> fst ` set fg"
    using Cons.IH kv by simp
  then show ?case using kv by (simp add: dom_update)
qed

lemma to_lower_true_letters:
  "to_lower a = CHR ''t'' \<longleftrightarrow> a = CHR ''t'' \<or> a = CHR ''T''"
  "to_lower a = CHR ''r'' \<longleftrightarrow> a = CHR ''r'' \<or> a = CHR ''R''"
  "to_lower a = CHR ''u'' \<longleftrightarrow> a = CHR ''u'' \<or> a = CHR ''U''"
  "to_lower a = CHR ''e'' \<longleftrightarrow> a = CHR ''e'' \<or> a = CHR ''E''"
  by (auto simp: to_lower_def split: if_splits)

lemma EqualFold_true:
  "EqualFold v ''true'' \<longleftrightarrow>
     (\<exists>a b c d. v = [a, b, c, d] \<and> a \<in> {CHR ''t'', CHR ''T''} \<and> b \<in> {CHR ''r'', CHR ''R''}
                \<and> c \<in> {CHR ''u'', CHR ''U''} \<and> d \<in> {CHR ''e'', CHR ''E''})"
proof -
  have "map to_lower ''true'' = ''true''" by (simp add: to_lower_def)
  then have "EqualFold v ''true'' \<longleftrightarrow> map to_lower v = ''true''" by (simp add: EqualFold_def)
  also have "\<dots> \<longleftrightarrow> (\<exists>a b c d. v = [a, b, c, d] \<and> to_lower a = CHR ''t'' \<and> to_lower b = CHR ''r''
                \<and> to_lower c = CHR ''u'' \<and> to_lower d = CHR ''e'')"
    by (auto simp: map_eq_Cons_conv)
  finally show ?thesis by (simp add: to_lower_true_letters)
qed

lemma getMapSlice_delete: "k' \<noteq> k \<Longrightarrow> getMapSlice (AList.delete k m) k' = getMapSlice m k'"
  by (simp add: getMapSlice_def delete_conv')

text \<open>
  Claim C6, as amended. For a \<open>runtime_config\<close> map of strings that \<open>flattenKindConfig\<close>
  accepts and whose keys stay distinct when every underscore is replaced by a slash, each
  key is stored with every underscore replaced by a slash and with its value unchanged,
  and the stored keys are exactly the rewritten keys; \<open>api_alpha\<close> is stored as
  \<open>api/alpha\<close>. Keys stay distinct, in particular, whenever no key contains a slash: two
  distinct such keys give two distinct stored keys.
\<close>

theorem runtime_config_keys_rewritten:
  assumes "map_of kindConfig ''runtime_config'' = Some (GMap (map (\<lambda>(k, v). (k, GString v)) rc))"
    and "distinct (map fst rc)"
    and "inj_on (\<lambda>k. ReplaceAll k CHR ''_'' CHR ''/'') (fst ` set rc)"
    and "flattenKindConfig kindConfig = Inr c"
  shows "(\<exists>m. RuntimeConfig c = Some m
            \<and> distinct (map fst m)
            \<and> fst ` set m = (\<lambda>k. ReplaceAll k CHR ''_'' CHR ''/'') ` fst ` set rc
            \<and> (\<forall>(k, v)\<in>set rc. map_of m (ReplaceAll k CHR ''_'' CHR ''/'') = Some v
                                 \<and> CHR ''_'' \<notin> set (ReplaceAll k CHR ''_'' CHR ''/'')))
         \<and> ReplaceAll ''api_alpha'' CHR ''_'' CHR ''/'' = ''api/alpha''
         \<and> (\<forall>ks. (\<forall>k\<in>ks. CHR ''/'' \<notin> set k) \<longrightarrow> inj_on (\<lambda>k. ReplaceAll k CHR ''_'' CHR ''/'') ks)"
proof -
  from assms(1) have "getStringMap kindConfig ''runtime_config'' = Some rc"
    by (rule getStringMap_strings)
  with flattenKindConfig_Inr(1) [OF assms(4)]
  have m: "RuntimeConfig c = Some (runtime_config_loop rc [])" by simp
  have "distinct (map fst (runtime_config_loop rc []))"
    by (rule runtime_config_loop_distinct) simp
  moreover have "fst ` set (runtime_config_loop rc []) = (\<lambda>k. ReplaceAll k CHR ''_'' CHR ''/'') ` fst ` set rc"
    by (simp add: runtime_config_loop_keys)
  moreover have "\<forall>(k, v)\<in>set rc.
      map_of (runtime_config_loop rc []) (ReplaceAll k CHR ''_'' CHR ''/'') = Some v
      \<and> CHR ''_'' \<notin> set (ReplaceAll k CHR ''_'' CHR ''/'')"
    using runtime_config_loop_stored [OF assms(2,3)] by (auto simp: ReplaceAll_no_old)
  moreover have "ReplaceAll ''api_alpha'' CHR ''_'' CHR ''/'' = ''api/alpha''"
    by (simp add: ReplaceAll_def)
  ultimately show ?thesis using m ReplaceAll_inj by blast
qed

theorem runtime_config_keys_rewritten_witness:
  "map_sum id RuntimeConfig
     (flattenKindConfig [(''kind'', GString ''Cluster''),
        (''runtime_config'', GMap [(''api_alpha'', GString ''false''), (''api_beta'', GString ''true'')])])
   = Inr (Some [(''api/alpha'', ''false''), (''api/beta'', ''true'')])
   \<and> (\<exists>c m. flattenKindConfig [(''kind'', GString ''Cluster''),
        (''runtime_config'', GMap [(''api_alpha'', GString ''false''), (''api_beta'', GString ''true'')])] = Inr c
        \<and> RuntimeConfig c = Some m
        \<and> map_of m ''api/alpha'' = Some ''false'' \<and> map_of m ''api/beta'' = Some ''true'')"
proof -
  let ?kc = "[(''kind'', GString ''Cluster''),
        (''runtime_config'', GMap [(''api_alpha'', GString ''false''), (''api_beta'', GString ''true'')])]"
  let ?rc = "[(''api_alpha'', ''false''), (''api_beta'', ''true'')]"
  have run: "flattenKindConfig ?kc =
      Inr (zero_Cluster\<lparr>Kind := ''Cluster'',
             RuntimeConfig := Some [(''api/alpha'', ''false''), (''api/beta'', ''true'')]\<rparr>)"
    by (simp add: flattenKindConfig_def getString_def getMapSlice_def getStringSlice_def getStringMap_def
          range_of_def ReplaceAll_def zero_Cluster_def Let_def)
  have h1: "map_of ?kc ''runtime_config'' = Some (GMap (map (\<lambda>(k, v). (k, GString v)) ?rc))" by simp
  have h2: "distinct (map fst ?rc)" by simp
  have h3: "inj_on (\<lambda>k. ReplaceAll k CHR ''_'' CHR ''/'') (fst ` set ?rc)"
    by (simp add: ReplaceAll_def)
  from runtime_config_keys_rewritten [OF h1 h2 h3 run, THEN conjunct1]
  obtain m where m: "RuntimeConfig (zero_Cluster\<lparr>Kind := ''Cluster'',
             RuntimeConfig := Some [(''api/alpha'', ''false''), (''api/beta'', ''true'')]\<rparr>) = Some m"
    and stored: "\<forall>(k, v)\<in>set ?rc. map_of m (ReplaceAll k CHR ''_'' CHR ''/'') = Some v
                                 \<and> CHR ''_'' \<notin> set (ReplaceAll k CHR ''_'' CHR ''/'')"
    by (elim exE conjE)
  from stored have "map_of m ''api/alpha'' = Some ''false'' \<and> map_of m ''api/beta'' = Some ''true''"
    by (simp add: ReplaceAll_def)
  with run m show ?thesis by simp
qed

text \<open>
  The claim as first stated fails where two keys meet after the replacement: the keys
  \<open>api_v1/beta\<close> and \<open>api/v1_beta\<close> are distinct and are both stored as \<open>api/v1/beta\<close>, so
  the stored map has one key, and only the value of the entry that \<open>range\<close> visits last
  survives.
\<close>

theorem runtime_config_collision:
  "''api_v1/beta'' \<noteq> ''api/v1_beta''
   \<and> ReplaceAll ''api_v1/beta'' CHR ''_'' CHR ''/'' = ReplaceAll ''api/v1_beta'' CHR ''_'' CHR ''/''
   \<and> map_sum id RuntimeConfig
       (flattenKindConfig
          [(''runtime_config'', GMap [(''api_v1/beta'', GString ''true''), (''api/v1_beta'', GString ''false'')])])
     = Inr (Some [(''api/v1/beta'', ''false'')])
   \<and> map_sum id RuntimeConfig
       (flattenKindConfig
          [(''runtime_config'', GMap [(''api/v1_beta'', GString ''false''), (''api_v1/beta'', GString ''true'')])])
     = Inr (Some [(''api/v1/beta'', ''true'')])"
  by (simp add: flattenKindConfig_def getString_def getMapSlice_def getStringSlice_def getStringMap_def
        range_of_def ReplaceAll_def zero_Cluster_def Let_def)

text \<open>
  Claim C7. For a \<open>feature_gates\<close> map of strings, a value equal to \<open>true\<close> when letter case
  is ignored (that is, one of the sixteen spellings of the four letters) is stored as
  \<open>True\<close> and every other value as \<open>False\<close>, under the same key. No value raises an error:
  the configuration fails with the map exactly when it fails without it.
\<close>

theorem feature_gates_parsed:
  assumes "map_of kindConfig ''feature_gates'' = Some (GMap (map (\<lambda>(k, v). (k, GString v)) fg))"
    and "distinct (map fst fg)"
  shows "isl (flattenKindConfig kindConfig) = isl (flattenKindConfig (AList.delete ''feature_gates'' kindConfig))
         \<and> (\<forall>c. flattenKindConfig kindConfig = Inr c \<longrightarrow>
              (\<exists>m. FeatureGates c = Some m
                    \<and> fst ` set m = fst ` set fg
                    \<and> (\<forall>(k, v)\<in>set fg. map_of m k = Some (EqualFold v ''true''))))
         \<and> (\<forall>v. EqualFold v ''true'' \<longleftrightarrow>
               (\<exists>a b c d. v = [a, b, c, d] \<and> a \<in> {CHR ''t'', CHR ''T''} \<and> b \<in> {CHR ''r'', CHR ''R''}
                          \<and> c \<in> {CHR ''u'', CHR ''U''} \<and> d \<in> {CHR ''e'', CHR ''E''}))"
proof -
  have "isl (flattenKindConfig kindConfig) = isl (flattenKindConfig (AList.delete ''feature_gates'' kindConfig))"
    by (simp only: flattenKindConfig_isl) (simp add: getMapSlice_delete)
  moreover have "\<exists>m. FeatureGates c = Some m \<and> fst ` set m = fst ` set fg
                    \<and> (\<forall>(k, v)\<in>set fg. map_of m k = Some (EqualFold v ''true''))"
    if c: "flattenKindConfig kindConfig = Inr c" for c
  proof -
    from assms(1) have "getStringMap kindConfig ''feature_gates'' = Some fg"
      by (rule getStringMap_strings)
    with flattenKindConfig_Inr(2) [OF c]
    have "FeatureGates c = Some (feature_gates_loop fg [])" by simp
    moreover have "fst ` set (feature_gates_loop fg []) = fst ` set fg"
      by (simp add: feature_gates_loop_keys)
    moreover have "\<forall>(k, v)\<in>set fg. map_of (feature_gates_loop fg []) k = Some (EqualFold v ''true'')"
      using feature_gates_loop_stored [OF assms(2)] by auto
    ultimately show ?thesis by blast
  qed
  ultimately show ?thesis using EqualFold_true by blast
qed

theorem feature_gates_parsed_witness:
  "map_sum id FeatureGates
     (flattenKindConfig
        [(''feature_gates'', GMap [(''FeatureA'', GString ''true''), (''FeatureB'', GString ''false''),
                                   (''FeatureC'', GString ''True''), (''FeatureD'', GString ''TRUE''),
                                   (''FeatureE'', GString ''yes'')])])
   = Inr (Some [(''FeatureA'', True), (''FeatureB'', False), (''FeatureC'', True), (''FeatureD'', True),
                (''FeatureE'', False)])
   \<and> \<not> isl (flattenKindConfig
        [(''feature_gates'', GMap [(''FeatureA'', GString ''true''), (''FeatureB'', GString ''false''),
                                   (''FeatureC'', GString ''True''), (''FeatureD'', GString ''TRUE''),
                                   (''FeatureE'', GString ''yes'')])])"
proof -
  let ?fg = "[(''FeatureA'', ''true''), (''FeatureB'', ''false''), (''FeatureC'', ''True''),
              (''FeatureD'', ''TRUE''), (''FeatureE'', ''yes'')]"
  let ?kc = "[(''feature_gates'', GMap (map (\<lambda>(k, v). (k, GString v)) ?fg))]"
  have h1: "map_of ?kc ''feature_gates'' = Some (GMap (map (\<lambda>(k, v). (k, GString v)) ?fg))" by simp
  have h2: "distinct (map fst ?fg)" by simp
  have empty: "\<not> isl (flattenKindConfig (AList.delete ''feature_gates'' ?kc))"
    by (simp add: flattenKindConfig_def getString_def getMapSlice_def getStringSlice_def getStringMap_def
          range_of_def Let_def)
  from feature_gates_parsed [OF h1 h2, THEN conjunct1] empty
  have ok: "\<not> isl (flattenKindConfig ?kc)" by simp
  then obtain c where c: "flattenKindConfig ?kc = Inr c" by (cases "flattenKindConfig ?kc") auto
  from feature_gates_parsed [OF h1 h2, THEN conjunct2, THEN conjunct1, rule_format, OF c]
  obtain m where m: "FeatureGates c = Some m"
    and stored: "\<forall>(k, v)\<in>set ?fg. map_of m k = Some (EqualFold v ''true'')"
    by (elim exE conjE)
  from stored have "map_of m ''FeatureA'' = Some True \<and> map_of m ''FeatureB'' = Some False
      \<and> map_of m ''FeatureC'' = Some True \<and> map_of m ''FeatureD'' = Some True
      \<and> map_of m ''FeatureE'' = Some False"
    by (simp add: EqualFold_def to_lower_def)
  have "flattenKindConfig ?kc = Inr (zero_Cluster\<lparr>FeatureGates :=
      Some [(''FeatureA'', True), (''FeatureB'', False), (''FeatureC'', True), (''FeatureD'', True),
            (''FeatureE'', False)]\<rparr>)"
    by (simp add: flattenKindConfig_def getString_def getMapSlice_def getStringSlice_def getStringMap_def
          range_of_def EqualFold_def to_lower_def zero_Cluster_def Let_def)
  with ok show ?thesis by simp
qed

section \<open>Properties of the lifecycle controller\<close>

subsection \<open>The retry loop of Create\<close>

lemma create_loop_step:
  "attempt \<le> maxRetries \<Longrightarrow>
   create_loop e name copts attempt err log =
     (if provider_Create e attempt = None then (None, log @ attempt_events e name copts attempt)
      else create_loop e name copts (Suc attempt) (provider_Create e attempt)
             (log @ attempt_events e name copts attempt))"
  by (subst create_loop.simps) (simp add: attempt_events_def Let_def)

lemma create_loop_done:
  "\<not> attempt \<le> maxRetries \<Longrightarrow> create_loop e name copts attempt err log = (err, log)"
  by (subst create_loop.simps) simp

lemma create_loop_success:
  assumes "k \<le> maxRetries" "a \<le> k" "\<forall>i. a \<le> i \<and> i < k \<longrightarrow> provider_Create e i \<noteq> None"
    "provider_Create e k = None"
  shows "create_loop e name copts a err log =
           (None, log @ concat (map (attempt_events e name copts) [a..<Suc k]))"
  using assms
proof (induction "k - a" arbitrary: a err log)
  case 0
  then have "a = k" by simp
  with 0 show ?case by (simp add: create_loop_step)
next
  case (Suc d)
  then have lt: "a < k" and a: "a \<le> maxRetries" by auto
  with Suc.prems have fail: "provider_Create e a \<noteq> None" by simp
  have upt: "[a..<Suc k] = a # [Suc a..<Suc k]" using lt by (simp add: upt_conv_Cons)
  have "create_loop e name copts a err log =
        create_loop e name copts (Suc a) (provider_Create e a) (log @ attempt_events e name copts a)"
    using fail by (simp only: create_loop_step [OF a] if_False)
  also have "\<dots> = (None, (log @ attempt_events e name copts a)
                        @ concat (map (attempt_events e name copts) [Suc a..<Suc k]))"
    using Suc.hyps(2) Suc.prems lt by (intro Suc.hyps(1)) auto
  also have "\<dots> = (None, log @ concat (map (attempt_events e name copts) [a..<Suc k]))"
    by (simp only: upt list.map concat.simps append_assoc)
  finally show ?case .
qed

lemma create_loop_failure:
  assumes "a \<le> maxRetries" "\<forall>i. a \<le> i \<and> i \<le> maxRetries \<longrightarrow> provider_Create e i \<noteq> None"
  shows "create_loop e name copts a err log =
           (provider_Create e maxRetries, log @ concat (map (attempt_events e name copts) [a..<Suc maxRetries]))"
  using assms
proof (induction "maxRetries - a" arbitrary: a err log)
  case 0
  then have a: "a = maxRetries" by simp
  with 0 have fail: "provider_Create e maxRetries \<noteq> None" by simp
  have "create_loop e name copts maxRetries err log =
        create_loop e name copts (Suc maxRetries) (provider_Create e maxRetries)
          (log @ attempt_events e name copts maxRetries)"
    using fail by (simp only: create_loop_step [OF order_refl] if_False)
  also have "\<dots> = (provider_Create e maxRetries, log @ attempt_events e name copts maxRetries)"
    by (simp add: create_loop_done)
  finally show ?case using a by simp
next
  case (Suc d)
  then have lt: "a < maxRetries" by auto
  with Suc.prems have fail: "provider_Create e a \<noteq> None" by simp
  have upt: "[a..<Suc maxRetries] = a # [Suc a..<Suc maxRetries]" using lt by (simp add: upt_conv_Cons)
  have "create_loop e name copts a err log =
        create_loop e name copts (Suc a) (provider_Create e a) (log @ attempt_events e name copts a)"
    using fail by (simp only: create_loop_step [OF Suc.prems(1)] if_False)
  also have "\<dots> = (provider_Create e maxRetries,
           (log @ attempt_events e name copts a) @ concat (map (attempt_events e name copts) [Suc a..<Suc maxRetries]))"
    using Suc.hyps(2) Suc.prems lt by (intro Suc.hyps(1)) auto
  also have "\<dots> = (provider_Create e maxRetries,
           log @ concat (map (attempt_events e name copts) [a..<Suc maxRetries]))"
    by (simp only: upt list.map concat.simps append_assoc)
  finally show ?case .
qed

lemma parse_absent:
  "IsNull kc \<or> Elements kc = [] \<Longrightarrow> parseKindConfigFromFramework kc = Inr None"
  by (auto simp: parseKindConfigFromFramework_def IsNull_def Elements_def split: tf.splits list.splits)

lemma Create_unfold:
  assumes "Plan_Get e = (diags, data)" and "\<not> HasError diags"
    and "\<forall>err. parseKindConfigFromFramework (KindConfig data) \<noteq> Inl err"
  shows "Create e =
    (case create_loop e (ValueString (Name data)) (create_options data) 0 None [] of
       (Some err, log) \<Rightarrow>
         \<lparr>Diagnostics = diags @ [DiagError ''Error creating Kind cluster''
                                  (''Could not create cluster '' @ ValueString (Name data) @ '' after ''
                                    @ fmt_d (int maxRetries + 1) @ '' attempts: '' @ Error err)],
          State = None, Log = log\<rparr>
     | (None, log) \<Rightarrow>
         (case readClusterState e
                 (data\<lparr>NodeImage := Known (if ValueString (NodeImage data) = [] then defaultNodeImage
                                              else ValueString (NodeImage data)),
                        ID := Known (ValueString (Name data) @ ''-''
                                     @ (if ValueString (NodeImage data) = [] then defaultNodeImage
                                        else ValueString (NodeImage data)))\<rparr>) diags log of
            (data, diags, log) \<Rightarrow>
              if HasError diags then \<lparr>Diagnostics = diags, State = None, Log = log\<rparr>
              else \<lparr>Diagnostics = diags @ State_Set e data, State = Some data, Log = log\<rparr>))"
proof -
  let ?name = "ValueString (Name data)"
  let ?image = "if ValueString (NodeImage data) = [] then defaultNodeImage else ValueString (NodeImage data)"
  have opts: "(if \<not> IsNull (KindConfig data) \<and> length (Elements (KindConfig data)) > 0 then
                 (case parseKindConfigFromFramework (KindConfig data) of
                    Inl err \<Rightarrow> Inl err
                  | Inr None \<Rightarrow> Inr (if ValueString (KubeconfigPath data) \<noteq> []
                                     then [CreateWithKubeconfigPath (ValueString (KubeconfigPath data))] else [])
                  | Inr (Some kindConfig) \<Rightarrow>
                      Inr ((if ValueString (KubeconfigPath data) \<noteq> []
                            then [CreateWithKubeconfigPath (ValueString (KubeconfigPath data))] else [])
                           @ [CreateWithV1Alpha4Config kindConfig]))
               else Inr (if ValueString (KubeconfigPath data) \<noteq> []
                         then [CreateWithKubeconfigPath (ValueString (KubeconfigPath data))] else []))
              = Inr ((if ValueString (KubeconfigPath data) \<noteq> []
                      then [CreateWithKubeconfigPath (ValueString (KubeconfigPath data))] else [])
                     @ (case parseKindConfigFromFramework (KindConfig data) of
                          Inr (Some kindConfig) \<Rightarrow> [CreateWithV1Alpha4Config kindConfig]
                        | _ \<Rightarrow> []))"
  proof (cases "IsNull (KindConfig data) \<or> Elements (KindConfig data) = []")
    case True
    then have "parseKindConfigFromFramework (KindConfig data) = Inr None" by (rule parse_absent)
    with True show ?thesis by auto
  next
    case False
    from assms(3) obtain r where r: "parseKindConfigFromFramework (KindConfig data) = Inr r"
      by (cases "parseKindConfigFromFramework (KindConfig data)") auto
    with False show ?thesis by (cases r) auto
  qed
  have "Create e =
    (case create_loop e ?name (create_options data) 0 None [] of
       (Some err, log) \<Rightarrow>
         \<lparr>Diagnostics = diags @ [DiagError ''Error creating Kind cluster''
                                  (''Could not create cluster '' @ ?name @ '' after ''
                                    @ fmt_d (int maxRetries + 1) @ '' attempts: '' @ Error err)],
          State = None, Log = log\<rparr>
     | (None, log) \<Rightarrow>
         (let data = data\<lparr>NodeImage := Known ?image, ID := Known (?name @ ''-'' @ ?image)\<rparr>
          in case readClusterState e data diags log of
            (data, diags, log) \<Rightarrow>
              if HasError diags then \<lparr>Diagnostics = diags, State = None, Log = log\<rparr>
              else \<lparr>Diagnostics = diags @ State_Set e data, State = Some data, Log = log\<rparr>))"
    unfolding Create_def Let_def assms(1) fst_conv snd_conv opts sum.case
    using assms(2) by (simp add: Let_def create_options_def)
  then show ?thesis by (simp only: Let_def)
qed

lemma readClusterState_ok:
  assumes "provider_KubeConfig e = Inr kconfig" and "RESTConfigFromKubeConfig e kconfig = Inr rc"
    and "ValueString (KubeconfigPath d) \<noteq> [] \<or> os_Getwd e = Inr cwd \<and> provider_ExportKubeConfig e = None"
  shows "\<exists>d'. readClusterState e d diags log =
           (d', diags,
            log @ [Debug (''Reading cluster state for: '' @ ValueString (Name d)), Call_KubeConfig (ValueString (Name d))]
                @ (if ValueString (KubeconfigPath d) = []
                   then [Call_ExportKubeConfig (ValueString (Name d)) (cwd @ ''/'' @ ValueString (Name d) @ ''-config'')]
                   else []))
         \<and> NodeImage d' = NodeImage d \<and> ID d' = ID d \<and> Name d' = Name d \<and> Completed d' = Known True"
proof (cases "ValueString (KubeconfigPath d) = []")
  case True
  with assms(3) have "os_Getwd e = Inr cwd" "provider_ExportKubeConfig e = None" by auto
  with True assms(1,2) show ?thesis
    by (simp add: readClusterState_def Let_def)
next
  case False
  then have "\<not> IsNull (KubeconfigPath d)" by (auto simp: IsNull_def ValueString_def split: tf.splits)
  with False assms(1,2) show ?thesis
    by (simp add: readClusterState_def Let_def)
qed

lemma fmt_d_attempts: "fmt_d (int maxRetries + 1) = ''3''"
  by (simp add: maxRetries_def fmt_d_def fmt_nat.simps digit_char_def)

text \<open>
  Claim C1, as amended. Let the plan decode without error and the \<open>kind_config\<close> block, if
  any, normalize without error. If the engine's create call fails on the attempts before
  attempt \<open>k\<close> and succeeds on attempt \<open>k\<close>, with at most 3 attempts, and the read of the
  cluster state that follows succeeds, then \<open>Create\<close> saves the state, with the effective
  node image (the user's, or the default when unset) and the identity built from it, and
  adds no diagnostic of its own. Before each retry it calls the engine's delete for the
  cluster (a failure is a warning only) and sleeps 5 seconds. If all 3 attempts fail,
  \<open>Create\<close> reports an error that names the cluster, the count 3 and the last failure,
  saves no state, and has called the engine exactly three times.
\<close>

theorem create_retries:
  assumes "Plan_Get e = (diags, data)" and "\<not> HasError diags"
    and "\<forall>err. parseKindConfigFromFramework (KindConfig data) \<noteq> Inl err"
    and "name = ValueString (Name data)"
    and "nodeImage = (if ValueString (NodeImage data) = [] then defaultNodeImage else ValueString (NodeImage data))"
    and "copts = create_options data"
  shows
    "(\<forall>k kconfig rc cwd.
        k \<le> 2 \<and> (\<forall>i<k. provider_Create e i \<noteq> None) \<and> provider_Create e k = None
        \<and> provider_KubeConfig e = Inr kconfig \<and> RESTConfigFromKubeConfig e kconfig = Inr rc
        \<and> (ValueString (KubeconfigPath data) \<noteq> []
            \<or> os_Getwd e = Inr cwd \<and> provider_ExportKubeConfig e = None)
        \<longrightarrow> (\<exists>data'. State (Create e) = Some data'
                \<and> NodeImage data' = Known nodeImage
                \<and> ID data' = Known (name @ ''-'' @ nodeImage)
                \<and> Completed data' = Known True
                \<and> Diagnostics (Create e) = diags @ State_Set e data'
                \<and> Log (Create e) =
                    concat (map (attempt_events e name copts) [0..<Suc k])
                    @ [Debug (''Reading cluster state for: '' @ name), Call_KubeConfig name]
                    @ (if ValueString (KubeconfigPath data) = []
                       then [Call_ExportKubeConfig name (cwd @ ''/'' @ name @ ''-config'')] else [])))
     \<and> ((\<forall>i\<le>2. provider_Create e i \<noteq> None)
        \<longrightarrow> (\<exists>err. provider_Create e 2 = Some err
                \<and> Diagnostics (Create e) =
                    diags @ [DiagError ''Error creating Kind cluster''
                               (''Could not create cluster '' @ name @ '' after 3 attempts: '' @ Error err)])
            \<and> State (Create e) = None
            \<and> Log (Create e) = concat (map (attempt_events e name copts) [0..<3]))
     \<and> CreateWithNodeImage nodeImage \<in> set copts
     \<and> attempt_events e name copts 0 = [Call_Create name copts]
     \<and> (\<forall>i>0. attempt_events e name copts i =
           Call_Delete name []
           # (case provider_Delete e (i - 1) of
                None \<Rightarrow> []
              | Some delErr \<Rightarrow> [Warn (''Failed to delete cluster during retry: '' @ Error delErr)])
           @ [Sleep 5000000000, Call_Create name copts])"
proof -
  note unfold = Create_unfold [OF assms(1,2,3), folded assms(4,5,6)]
  have success: "\<exists>data'. State (Create e) = Some data'
                \<and> NodeImage data' = Known nodeImage
                \<and> ID data' = Known (name @ ''-'' @ nodeImage)
                \<and> Completed data' = Known True
                \<and> Diagnostics (Create e) = diags @ State_Set e data'
                \<and> Log (Create e) =
                    concat (map (attempt_events e name copts) [0..<Suc k])
                    @ [Debug (''Reading cluster state for: '' @ name), Call_KubeConfig name]
                    @ (if ValueString (KubeconfigPath data) = []
                       then [Call_ExportKubeConfig name (cwd @ ''/'' @ name @ ''-config'')] else [])"
    if k: "k \<le> 2" and fails: "\<forall>i<k. provider_Create e i \<noteq> None" and ok: "provider_Create e k = None"
      and kc: "provider_KubeConfig e = Inr kconfig" and rc: "RESTConfigFromKubeConfig e kconfig = Inr rc"
      and path: "ValueString (KubeconfigPath data) \<noteq> []
            \<or> os_Getwd e = Inr cwd \<and> provider_ExportKubeConfig e = None"
    for k kconfig rc cwd
  proof -
    from k have k': "k \<le> maxRetries" by (simp add: maxRetries_def)
    from fails have "\<forall>i. 0 \<le> i \<and> i < k \<longrightarrow> provider_Create e i \<noteq> None" by simp
    from create_loop_success [OF k' _ this ok, of name copts None "[]"]
    have loop: "create_loop e name copts 0 None [] = (None, concat (map (attempt_events e name copts) [0..<Suc k]))"
      by simp
    let ?d = "data\<lparr>NodeImage := Known nodeImage, ID := Known (name @ ''-'' @ nodeImage)\<rparr>"
    from path have "ValueString (KubeconfigPath ?d) \<noteq> []
            \<or> os_Getwd e = Inr cwd \<and> provider_ExportKubeConfig e = None" by simp
    from readClusterState_ok [OF kc rc this, of diags "concat (map (attempt_events e name copts) [0..<Suc k])"]
    obtain d' where read: "readClusterState e ?d diags (concat (map (attempt_events e name copts) [0..<Suc k])) =
           (d', diags,
            concat (map (attempt_events e name copts) [0..<Suc k])
              @ [Debug (''Reading cluster state for: '' @ name), Call_KubeConfig name]
              @ (if ValueString (KubeconfigPath data) = []
                 then [Call_ExportKubeConfig name (cwd @ ''/'' @ name @ ''-config'')] else []))"
      and d': "NodeImage d' = Known nodeImage" "ID d' = Known (name @ ''-'' @ nodeImage)" "Completed d' = Known True"
      using assms(4) by auto
    from unfold loop read assms(2) have "Create e =
      \<lparr>Diagnostics = diags @ State_Set e d', State = Some d',
        Log = concat (map (attempt_events e name copts) [0..<Suc k])
              @ [Debug (''Reading cluster state for: '' @ name), Call_KubeConfig name]
              @ (if ValueString (KubeconfigPath data) = []
                 then [Call_ExportKubeConfig name (cwd @ ''/'' @ name @ ''-config'')] else [])\<rparr>"
      by (simp add: assms(5))
    with d' show ?thesis by simp
  qed
  have failure: "(\<exists>err. provider_Create e 2 = Some err
                \<and> Diagnostics (Create e) =
                    diags @ [DiagError ''Error creating Kind cluster''
                               (''Could not create cluster '' @ name @ '' after 3 attempts: '' @ Error err)])
            \<and> State (Create e) = None
            \<and> Log (Create e) = concat (map (attempt_events e name copts) [0..<3])"
    if fails: "\<forall>i\<le>2. provider_Create e i \<noteq> None"
  proof -
    from fails have "\<forall>i. 0 \<le> i \<and> i \<le> maxRetries \<longrightarrow> provider_Create e i \<noteq> None"
      by (simp add: maxRetries_def)
    from create_loop_failure [OF _ this, of name copts None "[]"]
    have loop: "create_loop e name copts 0 None [] =
        (provider_Create e 2, concat (map (attempt_events e name copts) [0..<3]))"
      by (simp add: maxRetries_def numeral_3_eq_3)
    from fails obtain err where err: "provider_Create e 2 = Some err" by auto
    with unfold loop have "Create e =
       \<lparr>Diagnostics = diags @ [DiagError ''Error creating Kind cluster''
                                  (''Could not create cluster '' @ name @ '' after 3 attempts: '' @ Error err)],
        State = None, Log = concat (map (attempt_events e name copts) [0..<3])\<rparr>"
      by (simp add: fmt_d_attempts)
    with err show ?thesis by simp
  qed
  have opts: "CreateWithNodeImage nodeImage \<in> set copts"
    by (simp add: assms(5,6) create_options_def)
  have first: "attempt_events e name copts 0 = [Call_Create name copts]"
    by (simp add: attempt_events_def)
  have retry: "\<forall>i>0. attempt_events e name copts i =
           Call_Delete name []
           # (case provider_Delete e (i - 1) of
                None \<Rightarrow> []
              | Some delErr \<Rightarrow> [Warn (''Failed to delete cluster during retry: '' @ Error delErr)])
           @ [Sleep 5000000000, Call_Create name copts]"
    by (simp add: attempt_events_def retryDelay_def Second_def)
  from success failure opts first retry show ?thesis by blast
qed

lemma example_options: "create_options example_model = [CreateWithNodeImage defaultNodeImage]"
  by (simp add: create_options_def example_model_def ValueString_def ValueBool_def
        parseKindConfigFromFramework_def)

lemma example_plan:
  "Plan_Get (example_env\<lparr>provider_Create := c, provider_Delete := d, provider_KubeConfig := k\<rparr>) = ([], example_model)"
  "\<not> HasError []"
  "\<forall>err. parseKindConfigFromFramework (KindConfig example_model) \<noteq> Inl err"
  "''test'' = ValueString (Name example_model)"
  "defaultNodeImage = (if ValueString (NodeImage example_model) = [] then defaultNodeImage
                       else ValueString (NodeImage example_model))"
  "[CreateWithNodeImage defaultNodeImage] = create_options example_model"
  by (simp_all add: example_env_def example_model_def HasError_def ValueString_def
        parseKindConfigFromFramework_def example_options [unfolded example_model_def])

theorem create_retries_witness:
  "(\<exists>data'. State (Create (example_env\<lparr>
        provider_Create := (\<lambda>n. if n < 2 then Some (ErrorNew ''transient failure'') else None),
        provider_Delete := (\<lambda>n. if n = 0 then Some (ErrorNew ''no such cluster'') else None),
        provider_KubeConfig := Inr ''kubeconfig''\<rparr>)) = Some data'
      \<and> NodeImage data' = Known defaultNodeImage
      \<and> ID data' = Known (''test-'' @ defaultNodeImage))
   \<and> Log (Create (example_env\<lparr>
        provider_Create := (\<lambda>n. if n < 2 then Some (ErrorNew ''transient failure'') else None),
        provider_Delete := (\<lambda>n. if n = 0 then Some (ErrorNew ''no such cluster'') else None),
        provider_KubeConfig := Inr ''kubeconfig''\<rparr>)) =
       [Call_Create ''test'' [CreateWithNodeImage defaultNodeImage],
        Call_Delete ''test'' [], Warn ''Failed to delete cluster during retry: no such cluster'',
        Sleep 5000000000,
        Call_Create ''test'' [CreateWithNodeImage defaultNodeImage],
        Call_Delete ''test'' [],
        Sleep 5000000000,
        Call_Create ''test'' [CreateWithNodeImage defaultNodeImage],
        Debug ''Reading cluster state for: test'', Call_KubeConfig ''test'',
        Call_ExportKubeConfig ''test'' ''/work/test-config'']
   \<and> Diagnostics (Create (example_env\<lparr>
        provider_Create := (\<lambda>n. Some (ErrorNew ''docker is not running'')),
        provider_Delete := (\<lambda>n. None),
        provider_KubeConfig := Inr ''kubeconfig''\<rparr>)) =
       [DiagError ''Error creating Kind cluster''
          ''Could not create cluster test after 3 attempts: docker is not running'']
   \<and> State (Create (example_env\<lparr>
        provider_Create := (\<lambda>n. Some (ErrorNew ''docker is not running'')),
        provider_Delete := (\<lambda>n. None),
        provider_KubeConfig := Inr ''kubeconfig''\<rparr>)) = None"
proof -
  let ?W = "example_env\<lparr>
        provider_Create := (\<lambda>n. if n < 2 then Some (ErrorNew ''transient failure'') else None),
        provider_Delete := (\<lambda>n. if n = 0 then Some (ErrorNew ''no such cluster'') else None),
        provider_KubeConfig := Inr ''kubeconfig''\<rparr>"
  let ?F = "example_env\<lparr>
        provider_Create := (\<lambda>n. Some (ErrorNew ''docker is not running'')),
        provider_Delete := (\<lambda>n. None),
        provider_KubeConfig := Inr ''kubeconfig''\<rparr>"
  note W = create_retries [of ?W, OF example_plan]
  note F = create_retries [of ?F, OF example_plan]
  have "2 \<le> (2::nat) \<and> (\<forall>i<2. provider_Create ?W i \<noteq> None) \<and> provider_Create ?W 2 = None
        \<and> provider_KubeConfig ?W = Inr ''kubeconfig''
        \<and> RESTConfigFromKubeConfig ?W ''kubeconfig''
            = Inr \<lparr>CertData = ''cert'', KeyData = ''key'', CAData = ''ca'', Host = ''https://127.0.0.1:6443''\<rparr>
        \<and> (ValueString (KubeconfigPath example_model) \<noteq> []
            \<or> os_Getwd ?W = Inr ''/work'' \<and> provider_ExportKubeConfig ?W = None)"
    by (simp add: example_env_def)
  from W [THEN conjunct1, rule_format, OF this]
  obtain data' where s: "State (Create ?W) = Some data'" "NodeImage data' = Known defaultNodeImage"
    "ID data' = Known (''test'' @ ''-'' @ defaultNodeImage)"
    and log: "Log (Create ?W) =
                    concat (map (attempt_events ?W ''test'' [CreateWithNodeImage defaultNodeImage]) [0..<Suc 2])
                    @ [Debug (''Reading cluster state for: '' @ ''test''), Call_KubeConfig ''test'']
                    @ (if ValueString (KubeconfigPath example_model) = []
                       then [Call_ExportKubeConfig ''test'' (''/work'' @ ''/'' @ ''test'' @ ''-config'')] else [])"
    by (elim exE conjE)
  have ev: "concat (map (attempt_events ?W ''test'' [CreateWithNodeImage defaultNodeImage]) [0..<3]) =
       [Call_Create ''test'' [CreateWithNodeImage defaultNodeImage],
        Call_Delete ''test'' [], Warn ''Failed to delete cluster during retry: no such cluster'',
        Sleep 5000000000,
        Call_Create ''test'' [CreateWithNodeImage defaultNodeImage],
        Call_Delete ''test'' [],
        Sleep 5000000000,
        Call_Create ''test'' [CreateWithNodeImage defaultNodeImage]]"
    by (simp add: upt_rec attempt_events_def example_env_def retryDelay_def Second_def)
  from log have "Log (Create ?W) =
       [Call_Create ''test'' [CreateWithNodeImage defaultNodeImage],
        Call_Delete ''test'' [], Warn ''Failed to delete cluster during retry: no such cluster'',
        Sleep 5000000000,
        Call_Create ''test'' [CreateWithNodeImage defaultNodeImage],
        Call_Delete ''test'' [],
        Sleep 5000000000,
        Call_Create ''test'' [CreateWithNodeImage defaultNodeImage],
        Debug ''Reading cluster state for: test'', Call_KubeConfig ''test'',
        Call_ExportKubeConfig ''test'' ''/work/test-config'']"
    by (simp add: ev example_model_def ValueString_def)
  moreover have "\<forall>i\<le>2. provider_Create ?F i \<noteq> None" by (simp add: example_env_def)
  from F [THEN conjunct2, THEN conjunct1, THEN mp, OF this]
  have "Diagnostics (Create ?F) =
       [DiagError ''Error creating Kind cluster''
          ''Could not create cluster test after 3 attempts: docker is not running'']"
    "State (Create ?F) = None"
    by (auto simp: example_env_def)
  ultimately show ?thesis using s by simp
qed

text \<open>
  The claim as first stated fails where the engine's create call succeeds and the read
  that follows does not: here the first attempt succeeds, the kubeconfig of the new
  cluster cannot be read, and \<open>Create\<close> reports an error and saves no state.
\<close>

theorem create_read_failure:
  "provider_Create (example_env\<lparr>provider_KubeConfig := Inl (ErrorNew ''cluster not found'')\<rparr>) 0 = None
   \<and> State (Create (example_env\<lparr>provider_KubeConfig := Inl (ErrorNew ''cluster not found'')\<rparr>)) = None
   \<and> Diagnostics (Create (example_env\<lparr>provider_KubeConfig := Inl (ErrorNew ''cluster not found'')\<rparr>)) =
       [DiagError ''Error reading Kind cluster''
          ''Could not read kubeconfig for cluster test: cluster not found'']
   \<and> HasError (Diagnostics (Create (example_env\<lparr>provider_KubeConfig := Inl (ErrorNew ''cluster not found'')\<rparr>)))"
proof -
  let ?R = "example_env\<lparr>provider_KubeConfig := Inl (ErrorNew ''cluster not found'')\<rparr>"
  have plan: "Plan_Get ?R = ([], example_model)" by (simp add: example_env_def)
  have ok: "provider_Create ?R 0 = None" by (simp add: example_env_def)
  have loop: "create_loop ?R (ValueString (Name example_model)) (create_options example_model) 0 None [] =
      (None, concat (map (attempt_events ?R (ValueString (Name example_model)) (create_options example_model)) [0..<Suc 0]))"
    using create_loop_success [of 0 0 ?R "ValueString (Name example_model)" "create_options example_model" None "[]"] ok
    by simp
  have "Create ?R =
     \<lparr>Diagnostics = [DiagError ''Error reading Kind cluster''
          ''Could not read kubeconfig for cluster test: cluster not found''],
      State = None,
      Log = [Call_Create ''test'' [CreateWithNodeImage defaultNodeImage],
             Debug ''Reading cluster state for: test'', Call_KubeConfig ''test'']\<rparr>"
    unfolding Create_unfold [OF plan example_plan(2,3)] loop
    by (simp add: readClusterState_def attempt_events_def example_options HasError_def Let_def)
       (simp add: example_env_def example_model_def ValueString_def)
  with ok show ?thesis by (simp add: HasError_def)
qed

subsection \<open>The cleanup of kubeconfig files\<close>

lemma remove_entries_maps:
  "map_of (Contexts (remove_entries cn cfg)) = (map_of (Contexts cfg))(cn := None)"
  "map_of (AuthInfos (remove_entries cn cfg)) = (map_of (AuthInfos cfg))(cn := None)"
  "map_of (Clusters (remove_entries cn cfg)) = (map_of (Clusters cfg))(cn := None)"
  "CurrentContext (remove_entries cn cfg) = (if CurrentContext cfg = cn then [] else CurrentContext cfg)"
  "Other (remove_entries cn cfg) = Other cfg"
  by (simp_all add: remove_entries_def Let_def delete_conv')

lemma removeContext_load_error:
  assumes "files w p = Inl loadErr"
  shows "removeContext e cn p ty w =
           w\<lparr>events := events w @ [LoadFromFile p,
                Warn (''Unable to load '' @ ty @ '' kubeconfig for context cleanup: '' @ Error loadErr)]\<rparr>"
  using assms by (simp add: removeContext_def Let_def)

lemma removeContext_absent:
  assumes "files w p = Inr cfg" and "map_of (Contexts cfg) cn = None"
  shows "removeContext e cn p ty w = w\<lparr>events := events w @ [LoadFromFile p]\<rparr>"
  using assms by (simp add: removeContext_def Let_def)

lemma removeContext_written:
  assumes "files w p = Inr cfg" and "map_of (Contexts cfg) cn \<noteq> None" and "WriteToFile_result e p = None"
  shows "removeContext e cn p ty w =
           w\<lparr>files := (files w)(p := Inr (remove_entries cn cfg)),
              events := events w @ [LoadFromFile p, WriteToFile (remove_entries cn cfg) p]\<rparr>"
  using assms by (auto simp: removeContext_def Let_def)

lemma removeContext_write_error:
  assumes "files w p = Inr cfg" and "map_of (Contexts cfg) cn \<noteq> None"
    and "WriteToFile_result e p = Some writeErr"
  shows "removeContext e cn p ty w =
           w\<lparr>events := events w @ [LoadFromFile p, WriteToFile (remove_entries cn cfg) p,
                Warn (''Unable to write '' @ ty @ '' kubeconfig to remove context: '' @ Error writeErr)]\<rparr>"
  using assms by (auto simp: removeContext_def Let_def)

lemma removeContext_events:
  "\<exists>new. events (removeContext e cn p ty w) = events w @ LoadFromFile p # new"
proof (cases "files w p")
  case (Inl loadErr)
  then show ?thesis by (simp add: removeContext_load_error)
next
  case (Inr cfg)
  show ?thesis
  proof (cases "map_of (Contexts cfg) cn = None")
    case True
    with Inr show ?thesis by (simp add: removeContext_absent)
  next
    case False
    with Inr show ?thesis
      by (cases "WriteToFile_result e p") (simp_all add: removeContext_written removeContext_write_error)
  qed
qed

lemma removeContext_events_mono:
  "ev \<in> set (events w) \<Longrightarrow> ev \<in> set (events (removeContext e cn p ty w))"
  using removeContext_events [of e cn p ty w] by auto

lemma removeContext_other:
  "q \<noteq> p \<Longrightarrow> files (removeContext e cn p ty w) q = files w q"
proof (cases "files w p")
  case (Inl loadErr)
  then show ?thesis by (simp add: removeContext_load_error)
next
  case (Inr cfg)
  assume q: "q \<noteq> p"
  show ?thesis
  proof (cases "map_of (Contexts cfg) cn = None")
    case True
    with Inr show ?thesis by (simp add: removeContext_absent)
  next
    case False
    with Inr q show ?thesis
      by (cases "WriteToFile_result e p") (simp_all add: removeContext_written removeContext_write_error)
  qed
qed

text \<open>
  Claim C10. \<open>removeContext\<close> can change no file but the one at its path. If that file
  fails to load, or has no context of the given name, its content stays as it was and no
  write is attempted. If the context exists, exactly one write is attempted, to that
  path, of the loaded document without the context, the user and the cluster of that
  name, with the current-context marker cleared if it was that name and everything else
  as it was; the file holds that document if the write succeeds.
\<close>

theorem removeContext_frame:
  "(\<forall>q. q \<noteq> p \<longrightarrow> files (removeContext e cn p ty w) q = files w q)
   \<and> ((\<exists>loadErr. files w p = Inl loadErr) \<or> (\<exists>cfg. files w p = Inr cfg \<and> map_of (Contexts cfg) cn = None)
        \<longrightarrow> files (removeContext e cn p ty w) = files w
            \<and> (\<exists>new. events (removeContext e cn p ty w) = events w @ new
                      \<and> (\<forall>c q. WriteToFile c q \<notin> set new)))
   \<and> (\<forall>cfg. files w p = Inr cfg \<and> map_of (Contexts cfg) cn \<noteq> None \<longrightarrow>
        (\<exists>cfg'. events (removeContext e cn p ty w) =
                   events w @ [LoadFromFile p, WriteToFile cfg' p]
                     @ (case WriteToFile_result e p of
                          None \<Rightarrow> []
                        | Some writeErr \<Rightarrow>
                            [Warn (''Unable to write '' @ ty @ '' kubeconfig to remove context: ''
                                   @ Error writeErr)])
              \<and> files (removeContext e cn p ty w) =
                   (case WriteToFile_result e p of
                      None \<Rightarrow> (files w)(p := Inr cfg')
                    | Some writeErr \<Rightarrow> files w)
              \<and> map_of (Contexts cfg') = (map_of (Contexts cfg))(cn := None)
              \<and> map_of (AuthInfos cfg') = (map_of (AuthInfos cfg))(cn := None)
              \<and> map_of (Clusters cfg') = (map_of (Clusters cfg))(cn := None)
              \<and> CurrentContext cfg' = (if CurrentContext cfg = cn then [] else CurrentContext cfg)
              \<and> Other cfg' = Other cfg))"
proof -
  have other: "\<forall>q. q \<noteq> p \<longrightarrow> files (removeContext e cn p ty w) q = files w q"
    by (simp add: removeContext_other)
  have untouched: "files (removeContext e cn p ty w) = files w
            \<and> (\<exists>new. events (removeContext e cn p ty w) = events w @ new
                      \<and> (\<forall>c q. WriteToFile c q \<notin> set new))"
    if "(\<exists>loadErr. files w p = Inl loadErr) \<or> (\<exists>cfg. files w p = Inr cfg \<and> map_of (Contexts cfg) cn = None)"
    using that
  proof
    assume "\<exists>loadErr. files w p = Inl loadErr"
    then obtain loadErr where "files w p = Inl loadErr" ..
    then show ?thesis by (simp add: removeContext_load_error)
  next
    assume "\<exists>cfg. files w p = Inr cfg \<and> map_of (Contexts cfg) cn = None"
    then obtain cfg where "files w p = Inr cfg" "map_of (Contexts cfg) cn = None" by blast
    then show ?thesis by (simp add: removeContext_absent)
  qed
  have rewritten: "\<exists>cfg'. events (removeContext e cn p ty w) =
                   events w @ [LoadFromFile p, WriteToFile cfg' p]
                     @ (case WriteToFile_result e p of
                          None \<Rightarrow> []
                        | Some writeErr \<Rightarrow>
                            [Warn (''Unable to write '' @ ty @ '' kubeconfig to remove context: ''
                                   @ Error writeErr)])
              \<and> files (removeContext e cn p ty w) =
                   (case WriteToFile_result e p of
                      None \<Rightarrow> (files w)(p := Inr cfg')
                    | Some writeErr \<Rightarrow> files w)
              \<and> map_of (Contexts cfg') = (map_of (Contexts cfg))(cn := None)
              \<and> map_of (AuthInfos cfg') = (map_of (AuthInfos cfg))(cn := None)
              \<and> map_of (Clusters cfg') = (map_of (Clusters cfg))(cn := None)
              \<and> CurrentContext cfg' = (if CurrentContext cfg = cn then [] else CurrentContext cfg)
              \<and> Other cfg' = Other cfg"
    if "files w p = Inr cfg \<and> map_of (Contexts cfg) cn \<noteq> None" for cfg
  proof (intro exI [of _ "remove_entries cn cfg"] conjI)
    from that have f: "files w p = Inr cfg" and c: "map_of (Contexts cfg) cn \<noteq> None" by simp_all
    show "events (removeContext e cn p ty w) =
            events w @ [LoadFromFile p, WriteToFile (remove_entries cn cfg) p]
              @ (case WriteToFile_result e p of
                   None \<Rightarrow> []
                 | Some writeErr \<Rightarrow>
                     [Warn (''Unable to write '' @ ty @ '' kubeconfig to remove context: '' @ Error writeErr)])"
      by (cases "WriteToFile_result e p")
         (simp_all add: removeContext_written [OF f c] removeContext_write_error [OF f c])
    show "files (removeContext e cn p ty w) =
            (case WriteToFile_result e p of
               None \<Rightarrow> (files w)(p := Inr (remove_entries cn cfg))
             | Some writeErr \<Rightarrow> files w)"
      by (cases "WriteToFile_result e p")
         (simp_all add: removeContext_written [OF f c] removeContext_write_error [OF f c])
  qed (simp_all only: remove_entries_maps)
  from other untouched rewritten show ?thesis by blast
qed

lemma example_cleaned:
  "remove_entries ''kind-test'' example_kubeconfig =
     \<lparr>Clusters = [(''prod'', ''cluster 2'')], AuthInfos = [(''prod'', ''user 2'')],
      Contexts = [(''prod'', ''context 2'')], CurrentContext = [], Other = ''preferences''\<rparr>"
  by (simp add: remove_entries_def example_kubeconfig_def Let_def)

theorem removeContext_frame_witness:
  "files (removeContext example_env ''kind-test'' ''/work/test-config'' ''custom''
            \<lparr>files = example_files, events = []\<rparr>) = example_files
   \<and> (\<exists>cfg'. files (removeContext example_env ''kind-test'' ''/home/user/.kube/config'' ''default''
                       \<lparr>files = example_files, events = []\<rparr>) ''/home/user/.kube/config'' = Inr cfg'
             \<and> map_of (Contexts cfg') ''kind-test'' = None
             \<and> map_of (Contexts cfg') ''prod'' = Some ''context 2''
             \<and> map_of (AuthInfos cfg') ''kind-test'' = None
             \<and> map_of (Clusters cfg') ''kind-test'' = None
             \<and> CurrentContext cfg' = []
             \<and> Other cfg' = ''preferences'')"
proof -
  let ?w = "\<lparr>files = example_files, events = []\<rparr>"
  have missing: "(\<exists>loadErr. files ?w ''/work/test-config'' = Inl loadErr)
      \<or> (\<exists>cfg. files ?w ''/work/test-config'' = Inr cfg \<and> map_of (Contexts cfg) ''kind-test'' = None)"
    by (simp add: example_files_def)
  from removeContext_frame [of "''/work/test-config''" example_env "''kind-test''" "''custom''" ?w,
         THEN conjunct2, THEN conjunct1, THEN mp, OF missing]
  have first: "files (removeContext example_env ''kind-test'' ''/work/test-config'' ''custom'' ?w) = example_files"
    by simp
  have present: "files ?w ''/home/user/.kube/config'' = Inr example_kubeconfig
      \<and> map_of (Contexts example_kubeconfig) ''kind-test'' \<noteq> None"
    by (simp add: example_files_def example_kubeconfig_def)
  from removeContext_frame [of "''/home/user/.kube/config''" example_env "''kind-test''" "''default''" ?w,
         THEN conjunct2, THEN conjunct2, THEN spec, THEN mp, OF present]
  obtain cfg' where
    f: "files (removeContext example_env ''kind-test'' ''/home/user/.kube/config'' ''default'' ?w) =
          (case WriteToFile_result example_env ''/home/user/.kube/config'' of
             None \<Rightarrow> (files ?w)(''/home/user/.kube/config'' := Inr cfg')
           | Some writeErr \<Rightarrow> files ?w)"
    and c: "map_of (Contexts cfg') = (map_of (Contexts example_kubeconfig))(''kind-test'' := None)"
      "map_of (AuthInfos cfg') = (map_of (AuthInfos example_kubeconfig))(''kind-test'' := None)"
      "map_of (Clusters cfg') = (map_of (Clusters example_kubeconfig))(''kind-test'' := None)"
      "CurrentContext cfg' = (if CurrentContext example_kubeconfig = ''kind-test'' then []
                              else CurrentContext example_kubeconfig)"
      "Other cfg' = Other example_kubeconfig"
    by (elim exE conjE)
  from f have "files (removeContext example_env ''kind-test'' ''/home/user/.kube/config'' ''default'' ?w)
      ''/home/user/.kube/config'' = Inr cfg'"
    by (simp add: example_env_def)
  moreover from c have "map_of (Contexts cfg') ''kind-test'' = None"
    "map_of (Contexts cfg') ''prod'' = Some ''context 2''"
    "map_of (AuthInfos cfg') ''kind-test'' = None"
    "map_of (Clusters cfg') ''kind-test'' = None"
    "CurrentContext cfg' = []" "Other cfg' = ''preferences''"
    by (simp_all add: example_kubeconfig_def)
  ultimately show ?thesis using first by (intro conjI exI [of _ cfg']) simp_all
qed

lemma Delete_success:
  assumes "State_Get e = (diags, data)" and "\<not> HasError diags" and "delete_select e = DeleteReturned None"
  shows "Delete e fs =
     (diags,
      let w0 = \<lparr>files = fs, events = [Call_Delete (ValueString (Name data)) (ValueString (KubeconfigPath data)),
                                         Blocked (snd (select_delete e))]\<rparr>;
          w1 = removeContext e (''kind-'' @ ValueString (Name data)) (RecommendedHomeFile e) ''default'' w0
      in if ValueString (KubeconfigPath data) \<noteq> []
         then removeContext e (''kind-'' @ ValueString (Name data)) (ValueString (KubeconfigPath data)) ''custom'' w1
         else w1)"
  using assms by (simp add: Delete_def Let_def)

text \<open>
  Claim C3. When the engine's deletion returns without error, \<open>Delete\<close> adds no diagnostic
  (it reports success) whatever happens to the kubeconfig files; it tries to load the
  default kubeconfig and, if a path is recorded, the file at that path, each whatever
  happened to the other; a failure to load or to write either file is a warning in the
  log; and for each of the files that holds the context \<open>kind-<name>\<close>, a document is
  written to it whose contexts, users and clusters are those of the loaded one without
  the entry of that name, whose current-context marker is cleared if it was that name
  and kept otherwise, and whose other content is that of the loaded one; that document
  is the content of the file if the write succeeds.
\<close>

theorem delete_cleanup_best_effort:
  assumes "State_Get e = (diags, data)" and "\<not> HasError diags" and "delete_select e = DeleteReturned None"
    and "name = ValueString (Name data)" and "path = ValueString (KubeconfigPath data)"
    and "home = RecommendedHomeFile e"
  shows "fst (Delete e fs) = diags
    \<and> \<not> HasError (fst (Delete e fs))
    \<and> LoadFromFile home \<in> set (events (snd (Delete e fs)))
    \<and> (path \<noteq> [] \<longrightarrow> LoadFromFile path \<in> set (events (snd (Delete e fs))))
    \<and> (\<forall>loadErr. fs home = Inl loadErr \<longrightarrow>
          Warn (''Unable to load default kubeconfig for context cleanup: '' @ Error loadErr)
            \<in> set (events (snd (Delete e fs))))
    \<and> (\<forall>loadErr. path \<noteq> [] \<and> fs path = Inl loadErr \<longrightarrow>
          Warn (''Unable to load custom kubeconfig for context cleanup: '' @ Error loadErr)
            \<in> set (events (snd (Delete e fs))))
    \<and> (\<forall>p cfg. (p = home \<or> path \<noteq> [] \<and> p = path) \<and> fs p = Inr cfg
                 \<and> map_of (Contexts cfg) (''kind-'' @ name) \<noteq> None \<longrightarrow>
          (\<exists>cfg'. WriteToFile cfg' p \<in> set (events (snd (Delete e fs)))
             \<and> map_of (Contexts cfg') = (map_of (Contexts cfg))(''kind-'' @ name := None)
             \<and> map_of (AuthInfos cfg') = (map_of (AuthInfos cfg))(''kind-'' @ name := None)
             \<and> map_of (Clusters cfg') = (map_of (Clusters cfg))(''kind-'' @ name := None)
             \<and> CurrentContext cfg' = (if CurrentContext cfg = ''kind-'' @ name then [] else CurrentContext cfg)
             \<and> Other cfg' = Other cfg
             \<and> (WriteToFile_result e p = None \<longrightarrow> files (snd (Delete e fs)) p = Inr cfg')
             \<and> (\<forall>writeErr. WriteToFile_result e p = Some writeErr \<longrightarrow>
                   (\<exists>ty. Warn (''Unable to write '' @ ty @ '' kubeconfig to remove context: '' @ Error writeErr)
                           \<in> set (events (snd (Delete e fs)))))))"
proof -
  define cn where "cn = ''kind-'' @ name"
  define w0 where "w0 = \<lparr>files = fs, events = [Call_Delete name path, Blocked (snd (select_delete e))]\<rparr>"
  define w1 where "w1 = removeContext e cn home ''default'' w0"
  define w2 where "w2 = (if path \<noteq> [] then removeContext e cn path ''custom'' w1 else w1)"
  have D: "Delete e fs = (diags, w2)"
    unfolding Delete_success [OF assms(1,2,3)] w2_def w1_def w0_def assms(4,5,6) cn_def Let_def ..
  have mono12: "ev \<in> set (events w2)" if "ev \<in> set (events w1)" for ev
  proof (cases "path \<noteq> []")
    case True
    then have "w2 = removeContext e cn path ''custom'' w1" by (simp add: w2_def)
    with that show ?thesis by (simp only: removeContext_events_mono)
  next
    case False
    then have "w2 = w1" by (simp add: w2_def)
    with that show ?thesis by simp
  qed
  have files0: "files w0 = fs" by (simp add: w0_def)
  have load_home: "LoadFromFile home \<in> set (events w2)"
  proof -
    obtain new where "events w1 = events w0 @ LoadFromFile home # new"
      using removeContext_events [of e cn home "''default''" w0] unfolding w1_def by blast
    then have "LoadFromFile home \<in> set (events w1)" by simp
    then show ?thesis by (rule mono12)
  qed
  have load_path: "path \<noteq> [] \<longrightarrow> LoadFromFile path \<in> set (events w2)"
  proof
    assume "path \<noteq> []"
    then have w2: "w2 = removeContext e cn path ''custom'' w1" by (simp add: w2_def)
    obtain new where "events w2 = events w1 @ LoadFromFile path # new"
      using removeContext_events [of e cn path "''custom''" w1] unfolding w2 by blast
    then show "LoadFromFile path \<in> set (events w2)" by simp
  qed
  have warn_home: "\<forall>loadErr. fs home = Inl loadErr \<longrightarrow>
          Warn (''Unable to load default kubeconfig for context cleanup: '' @ Error loadErr)
            \<in> set (events w2)"
  proof (intro allI impI)
    fix loadErr assume "fs home = Inl loadErr"
    with files0 have "files w0 home = Inl loadErr" by simp
    from removeContext_load_error [OF this, of e cn "''default''"]
    have "events w1 = events w0 @ [LoadFromFile home,
            Warn (''Unable to load '' @ ''default'' @ '' kubeconfig for context cleanup: '' @ Error loadErr)]"
      unfolding w1_def by simp
    then have "Warn (''Unable to load '' @ ''default'' @ '' kubeconfig for context cleanup: '' @ Error loadErr)
        \<in> set (events w1)" by simp
    then have "Warn (''Unable to load '' @ ''default'' @ '' kubeconfig for context cleanup: '' @ Error loadErr)
        \<in> set (events w2)" by (rule mono12)
    then show "Warn (''Unable to load default kubeconfig for context cleanup: '' @ Error loadErr)
        \<in> set (events w2)" by simp
  qed
  have files1: "files w1 q = fs q" if "q \<noteq> home \<or> (\<exists>loadErr. fs q = Inl loadErr)" for q
  proof (cases "q = home")
    case False
    then show ?thesis by (simp add: w1_def removeContext_other files0)
  next
    case True
    with that obtain loadErr where "fs home = Inl loadErr" by auto
    with files0 have "files w0 home = Inl loadErr" by simp
    from removeContext_load_error [OF this, of e cn "''default''"] True files0
    show ?thesis unfolding w1_def by simp
  qed
  have warn_path: "\<forall>loadErr. path \<noteq> [] \<and> fs path = Inl loadErr \<longrightarrow>
          Warn (''Unable to load custom kubeconfig for context cleanup: '' @ Error loadErr)
            \<in> set (events w2)"
  proof (intro allI impI)
    fix loadErr assume a: "path \<noteq> [] \<and> fs path = Inl loadErr"
    then have ne: "path \<noteq> []" and l: "fs path = Inl loadErr" by blast+
    from ne have w2: "w2 = removeContext e cn path ''custom'' w1" by (simp add: w2_def)
    from l files1 [of path] have "files w1 path = Inl loadErr" by auto
    from removeContext_load_error [OF this, of e cn "''custom''"]
    have "events w2 = events w1 @ [LoadFromFile path,
            Warn (''Unable to load '' @ ''custom'' @ '' kubeconfig for context cleanup: '' @ Error loadErr)]"
      unfolding w2 by simp
    then have "Warn (''Unable to load '' @ ''custom'' @ '' kubeconfig for context cleanup: '' @ Error loadErr)
        \<in> set (events w2)" by simp
    then show "Warn (''Unable to load custom kubeconfig for context cleanup: '' @ Error loadErr)
        \<in> set (events w2)" by simp
  qed
  have present: "\<forall>p cfg. (p = home \<or> path \<noteq> [] \<and> p = path) \<and> fs p = Inr cfg
                 \<and> map_of (Contexts cfg) cn \<noteq> None \<longrightarrow>
          (\<exists>cfg'. WriteToFile cfg' p \<in> set (events w2)
             \<and> map_of (Contexts cfg') = (map_of (Contexts cfg))(cn := None)
             \<and> map_of (AuthInfos cfg') = (map_of (AuthInfos cfg))(cn := None)
             \<and> map_of (Clusters cfg') = (map_of (Clusters cfg))(cn := None)
             \<and> CurrentContext cfg' = (if CurrentContext cfg = cn then [] else CurrentContext cfg)
             \<and> Other cfg' = Other cfg
             \<and> (WriteToFile_result e p = None \<longrightarrow> files w2 p = Inr cfg')
             \<and> (\<forall>writeErr. WriteToFile_result e p = Some writeErr \<longrightarrow>
                   (\<exists>ty. Warn (''Unable to write '' @ ty @ '' kubeconfig to remove context: '' @ Error writeErr)
                           \<in> set (events w2))))"
  proof (intro allI impI)
    fix p cfg
    assume a: "(p = home \<or> path \<noteq> [] \<and> p = path) \<and> fs p = Inr cfg \<and> map_of (Contexts cfg) cn \<noteq> None"
    then have p: "p = home \<or> path \<noteq> [] \<and> p = path" and f: "fs p = Inr cfg"
      and c: "map_of (Contexts cfg) cn \<noteq> None" by blast+
    have rest: "WriteToFile (remove_entries cn cfg) p \<in> set (events w2)
          \<and> (WriteToFile_result e p = None \<longrightarrow> files w2 p = Inr (remove_entries cn cfg))
          \<and> (\<forall>writeErr. WriteToFile_result e p = Some writeErr \<longrightarrow>
                (\<exists>ty. Warn (''Unable to write '' @ ty @ '' kubeconfig to remove context: '' @ Error writeErr)
                        \<in> set (events w2)))"
    proof (cases "p = home")
      case True
      from f True files0 have f0: "files w0 home = Inr cfg" by simp
      have ev1: "WriteToFile (remove_entries cn cfg) home \<in> set (events w1)"
      proof (cases "WriteToFile_result e home")
        case None
        from removeContext_written [OF f0 c None, of "''default''"] show ?thesis
          unfolding w1_def by simp
      next
        case (Some writeErr)
        from removeContext_write_error [OF f0 c Some, of "''default''"] show ?thesis
          unfolding w1_def by simp
      qed
      have warn1: "\<exists>ty. Warn (''Unable to write '' @ ty @ '' kubeconfig to remove context: '' @ Error writeErr)
                        \<in> set (events w2)" if w: "WriteToFile_result e home = Some writeErr" for writeErr
      proof -
        from removeContext_write_error [OF f0 c w, of "''default''"]
        have "events w1 = events w0 @ [LoadFromFile home, WriteToFile (remove_entries cn cfg) home,
                Warn (''Unable to write '' @ ''default'' @ '' kubeconfig to remove context: '' @ Error writeErr)]"
          unfolding w1_def by simp
        then have "Warn (''Unable to write '' @ ''default'' @ '' kubeconfig to remove context: '' @ Error writeErr)
            \<in> set (events w1)" by simp
        then have "Warn (''Unable to write '' @ ''default'' @ '' kubeconfig to remove context: '' @ Error writeErr)
            \<in> set (events w2)" by (rule mono12)
        then show ?thesis
          by (rule exI [of "\<lambda>ty. Warn (''Unable to write '' @ ty @ '' kubeconfig to remove context: ''
                                        @ Error writeErr) \<in> set (events w2)" "''default''"])
      qed
      have file2: "files w2 home = Inr (remove_entries cn cfg)" if ok: "WriteToFile_result e home = None"
      proof -
        from removeContext_written [OF f0 c ok, of "''default''"]
        have f1: "files w1 home = Inr (remove_entries cn cfg)"
          unfolding w1_def by simp
        show ?thesis
        proof (cases "path \<noteq> [] \<and> path = home")
          case True
          then have ph: "path \<noteq> []" "path = home" by blast+
          have gone: "map_of (Contexts (remove_entries cn cfg)) cn = None"
            by (simp add: remove_entries_maps)
          from ph f1 have "files w1 path = Inr (remove_entries cn cfg)" by simp
          from removeContext_absent [OF this gone, of e "''custom''"]
          have "w2 = w1\<lparr>events := events w1 @ [LoadFromFile path]\<rparr>"
            using ph(1) by (simp add: w2_def)
          with f1 show ?thesis by simp
        next
          case False
          show ?thesis
          proof (cases "path = []")
            case True
            then have "w2 = w1" by (simp add: w2_def)
            with f1 show ?thesis by simp
          next
            case ne: False
            with False have "home \<noteq> path" by blast
            from ne have "w2 = removeContext e cn path ''custom'' w1" by (simp add: w2_def)
            with removeContext_other [OF \<open>home \<noteq> path\<close>, of e cn "''custom''" w1] f1
            show ?thesis by simp
          qed
        qed
      qed
      from mono12 [OF ev1] warn1 file2 show ?thesis unfolding True by blast
    next
      case False
      with p have path: "path \<noteq> []" "p = path" by blast+
      from False f files1 [of p] path have f1: "files w1 path = Inr cfg" by simp
      have w2: "w2 = removeContext e cn path ''custom'' w1" using path by (simp add: w2_def)
      have ev2: "WriteToFile (remove_entries cn cfg) path \<in> set (events w2)"
      proof (cases "WriteToFile_result e path")
        case None
        from removeContext_written [OF f1 c None, of "''custom''"] show ?thesis
          unfolding w2 by simp
      next
        case (Some writeErr)
        from removeContext_write_error [OF f1 c Some, of "''custom''"] show ?thesis
          unfolding w2 by simp
      qed
      have warn2: "\<exists>ty. Warn (''Unable to write '' @ ty @ '' kubeconfig to remove context: '' @ Error writeErr)
                        \<in> set (events w2)" if w: "WriteToFile_result e path = Some writeErr" for writeErr
      proof -
        from removeContext_write_error [OF f1 c w, of "''custom''"]
        have "events w2 = events w1 @ [LoadFromFile path, WriteToFile (remove_entries cn cfg) path,
                Warn (''Unable to write '' @ ''custom'' @ '' kubeconfig to remove context: '' @ Error writeErr)]"
          unfolding w2 by simp
        then have "Warn (''Unable to write '' @ ''custom'' @ '' kubeconfig to remove context: '' @ Error writeErr)
            \<in> set (events w2)" by simp
        then show ?thesis
          by (rule exI [of "\<lambda>ty. Warn (''Unable to write '' @ ty @ '' kubeconfig to remove context: ''
                                        @ Error writeErr) \<in> set (events w2)" "''custom''"])
      qed
      have file2: "files w2 path = Inr (remove_entries cn cfg)" if ok: "WriteToFile_result e path = None"
        using removeContext_written [OF f1 c ok, of "''custom''"] unfolding w2 by simp
      from ev2 warn2 file2 show ?thesis unfolding path(2) by blast
    qed
    from rest have written: "WriteToFile (remove_entries cn cfg) p \<in> set (events w2)"
      by (rule conjunct1)
    from rest have kept: "WriteToFile_result e p = None \<longrightarrow> files w2 p = Inr (remove_entries cn cfg)"
      by (rule conjunct2 [THEN conjunct1])
    from rest have warned: "\<forall>writeErr. WriteToFile_result e p = Some writeErr \<longrightarrow>
                (\<exists>ty. Warn (''Unable to write '' @ ty @ '' kubeconfig to remove context: '' @ Error writeErr)
                        \<in> set (events w2))"
      by (rule conjunct2 [THEN conjunct2])
    show "\<exists>cfg'. WriteToFile cfg' p \<in> set (events w2)
             \<and> map_of (Contexts cfg') = (map_of (Contexts cfg))(cn := None)
             \<and> map_of (AuthInfos cfg') = (map_of (AuthInfos cfg))(cn := None)
             \<and> map_of (Clusters cfg') = (map_of (Clusters cfg))(cn := None)
             \<and> CurrentContext cfg' = (if CurrentContext cfg = cn then [] else CurrentContext cfg)
             \<and> Other cfg' = Other cfg
             \<and> (WriteToFile_result e p = None \<longrightarrow> files w2 p = Inr cfg')
             \<and> (\<forall>writeErr. WriteToFile_result e p = Some writeErr \<longrightarrow>
                   (\<exists>ty. Warn (''Unable to write '' @ ty @ '' kubeconfig to remove context: '' @ Error writeErr)
                           \<in> set (events w2)))"
      by (intro exI [of _ "remove_entries cn cfg"] conjI written kept warned remove_entries_maps)
  qed
  show ?thesis
    unfolding cn_def [symmetric] D fst_conv snd_conv
    by (intro conjI refl assms(2) load_home load_path warn_home warn_path present)
qed

theorem delete_cleanup_best_effort_witness:
  "\<not> HasError (fst (Delete example_env example_files))
   \<and> LoadFromFile ''/home/user/.kube/config'' \<in> set (events (snd (Delete example_env example_files)))
   \<and> LoadFromFile ''/work/test-config'' \<in> set (events (snd (Delete example_env example_files)))
   \<and> Warn ''Unable to load custom kubeconfig for context cleanup: no such file or directory''
        \<in> set (events (snd (Delete example_env example_files)))
   \<and> (\<exists>cfg'. WriteToFile cfg' ''/home/user/.kube/config'' \<in> set (events (snd (Delete example_env example_files)))
          \<and> files (snd (Delete example_env example_files)) ''/home/user/.kube/config'' = Inr cfg'
          \<and> map_of (Contexts cfg') ''kind-test'' = None
          \<and> map_of (AuthInfos cfg') ''kind-test'' = None
          \<and> map_of (Clusters cfg') ''kind-test'' = None
          \<and> map_of (Contexts cfg') ''prod'' = Some ''context 2''
          \<and> map_of (AuthInfos cfg') ''prod'' = Some ''user 2''
          \<and> map_of (Clusters cfg') ''prod'' = Some ''cluster 2''
          \<and> CurrentContext cfg' = []
          \<and> Other cfg' = ''preferences'')"
proof -
  let ?data = "example_model\<lparr>KubeconfigPath := Known ''/work/test-config''\<rparr>"
  have h: "State_Get example_env = ([], ?data)" "\<not> HasError []"
    "delete_select example_env = DeleteReturned None"
    "''test'' = ValueString (Name ?data)" "''/work/test-config'' = ValueString (KubeconfigPath ?data)"
    "''/home/user/.kube/config'' = RecommendedHomeFile example_env"
    by (simp_all add: example_env_def example_model_def HasError_def ValueString_def
          delete_select_def select_delete_def deleteCtx_Done_def defaultTimeout_def Minute_def Second_def)
  note T = delete_cleanup_best_effort [OF h, of example_files]
  from T have ok: "\<not> HasError (fst (Delete example_env example_files))"
    by (rule conjunct2 [THEN conjunct1])
  from T have l1: "LoadFromFile ''/home/user/.kube/config'' \<in> set (events (snd (Delete example_env example_files)))"
    by (rule conjunct2 [THEN conjunct2, THEN conjunct1])
  from T [THEN conjunct2, THEN conjunct2, THEN conjunct2, THEN conjunct1]
  have l2: "LoadFromFile ''/work/test-config'' \<in> set (events (snd (Delete example_env example_files)))"
    by simp
  have miss: "''/work/test-config'' \<noteq> [] \<and> example_files ''/work/test-config'' = Inl (ErrorNew ''no such file or directory'')"
    by (simp add: example_files_def)
  from T [THEN conjunct2, THEN conjunct2, THEN conjunct2, THEN conjunct2, THEN conjunct2, THEN conjunct1,
          THEN spec, THEN mp, OF miss]
  have w: "Warn ''Unable to load custom kubeconfig for context cleanup: no such file or directory''
        \<in> set (events (snd (Delete example_env example_files)))"
    by simp
  have pres: "(''/home/user/.kube/config'' = ''/home/user/.kube/config''
        \<or> ''/work/test-config'' \<noteq> [] \<and> ''/home/user/.kube/config'' = ''/work/test-config'')
      \<and> example_files ''/home/user/.kube/config'' = Inr example_kubeconfig
      \<and> map_of (Contexts example_kubeconfig) (''kind-'' @ ''test'') \<noteq> None"
    by (simp add: example_files_def example_kubeconfig_def)
  from T [THEN conjunct2, THEN conjunct2, THEN conjunct2, THEN conjunct2, THEN conjunct2, THEN conjunct2,
          THEN spec, THEN spec, THEN mp, OF pres]
  obtain cfg' where
    ev: "WriteToFile cfg' ''/home/user/.kube/config'' \<in> set (events (snd (Delete example_env example_files)))"
    and c: "map_of (Contexts cfg') = (map_of (Contexts example_kubeconfig))(''kind-'' @ ''test'' := None)"
      "map_of (AuthInfos cfg') = (map_of (AuthInfos example_kubeconfig))(''kind-'' @ ''test'' := None)"
      "map_of (Clusters cfg') = (map_of (Clusters example_kubeconfig))(''kind-'' @ ''test'' := None)"
      "CurrentContext cfg' = (if CurrentContext example_kubeconfig = ''kind-'' @ ''test'' then []
                              else CurrentContext example_kubeconfig)"
      "Other cfg' = Other example_kubeconfig"
    and f: "WriteToFile_result example_env ''/home/user/.kube/config'' = None \<longrightarrow>
      files (snd (Delete example_env example_files)) ''/home/user/.kube/config'' = Inr cfg'"
    by (elim exE conjE)
  from f have held: "files (snd (Delete example_env example_files)) ''/home/user/.kube/config'' = Inr cfg'"
    by (simp add: example_env_def)
  from c have maps: "map_of (Contexts cfg') ''kind-test'' = None"
    "map_of (AuthInfos cfg') ''kind-test'' = None"
    "map_of (Clusters cfg') ''kind-test'' = None"
    "map_of (Contexts cfg') ''prod'' = Some ''context 2''"
    "map_of (AuthInfos cfg') ''prod'' = Some ''user 2''"
    "map_of (Clusters cfg') ''prod'' = Some ''cluster 2''"
    "CurrentContext cfg' = []" "Other cfg' = ''preferences''"
    by (simp_all add: example_kubeconfig_def)
  from ok l1 l2 w ev held maps show ?thesis by (intro conjI exI [of _ cfg'])
qed

subsection \<open>The race in Delete\<close>

lemma deleteCtx_Done_cases:
  "deleteCtx_Done e \<le> 300000000000"
  "ctx_Done e = None \<or> (\<exists>c. ctx_Done e = Some c \<and> 300000000000 \<le> c) \<Longrightarrow> deleteCtx_Done e = 300000000000"
  "ctx_Done e = Some c \<Longrightarrow> c < 300000000000 \<Longrightarrow> deleteCtx_Done e = c"
  by (auto simp: deleteCtx_Done_def defaultTimeout_def Minute_def Second_def split: option.splits)

lemma select_delete_result_first:
  assumes "Delete_returns e = Some (d, err)" and "d < deleteCtx_Done e"
  shows "select_delete e = (DeleteReturned err, d)"
  using assms by (simp add: select_delete_def)

lemma select_delete_context_first:
  assumes "Delete_returns e = None \<or> (\<exists>d err. Delete_returns e = Some (d, err) \<and> deleteCtx_Done e < d)"
  shows "select_delete e = (ContextDone, deleteCtx_Done e)"
  using assms by (auto simp: select_delete_def)

lemma Delete_failure:
  assumes "State_Get e = (diags, data)" and "\<not> HasError diags"
    and "(case delete_select e of DeleteReturned r \<Rightarrow> r | ContextDone \<Rightarrow> Some errDeleteTimeout) = Some err"
  shows "Delete e fs =
     (diags @ [DiagError ''Error deleting Kind cluster''
                 (''Could not delete cluster '' @ ValueString (Name data) @ '': '' @ Error err)],
      \<lparr>files = fs, events = [Call_Delete (ValueString (Name data)) (ValueString (KubeconfigPath data)),
                             Blocked (snd (select_delete e))]\<rparr>)"
  using assms by (simp add: Delete_def Let_def)

lemma HasError_append: "HasError (diags @ [DiagError summary detail])"
  by (simp add: HasError_def)

lemma Delete_success_events:
  assumes "State_Get e = (diags, data)" and "\<not> HasError diags" and "delete_select e = DeleteReturned None"
  shows "\<exists>rest. events (snd (Delete e fs)) =
           Call_Delete (ValueString (Name data)) (ValueString (KubeconfigPath data))
             # Blocked (snd (select_delete e)) # LoadFromFile (RecommendedHomeFile e) # rest"
proof -
  define cn where "cn = ''kind-'' @ ValueString (Name data)"
  define w0 where "w0 = \<lparr>files = fs, events = [Call_Delete (ValueString (Name data)) (ValueString (KubeconfigPath data)),
                                         Blocked (snd (select_delete e))]\<rparr>"
  define w1 where "w1 = removeContext e cn (RecommendedHomeFile e) ''default'' w0"
  obtain new where n1: "events w1 = events w0 @ LoadFromFile (RecommendedHomeFile e) # new"
    using removeContext_events [of e cn "RecommendedHomeFile e" "''default''" w0] unfolding w1_def by blast
  show ?thesis
  proof (cases "ValueString (KubeconfigPath data) \<noteq> []")
    case True
    obtain new2 where "events (removeContext e cn (ValueString (KubeconfigPath data)) ''custom'' w1)
        = events w1 @ LoadFromFile (ValueString (KubeconfigPath data)) # new2"
      using removeContext_events [of e cn "ValueString (KubeconfigPath data)" "''custom''" w1] by blast
    with n1 True show ?thesis
      unfolding Delete_success [OF assms] Let_def cn_def [symmetric] w0_def [symmetric] w1_def [symmetric]
      by (simp add: w0_def)
  next
    case False
    with n1 show ?thesis
      unfolding Delete_success [OF assms] Let_def cn_def [symmetric] w0_def [symmetric] w1_def [symmetric]
      by (simp add: w0_def)
  qed
qed

text \<open>
  Claim C2, as amended. \<open>Delete\<close> waits for the engine's deletion and for the end of a
  context derived from the caller's with the timeout of 5 minutes (300000000000 ns),
  whichever comes first. If the deletion returns first with an error, that error is the
  outcome, reported after that time and with no cleanup; if it returns first without
  error, no diagnostic is added and the cleanup starts. If the deletion never returns,
  or returns after the context has ended, \<open>Delete\<close> reports the timeout error when the
  context ends and attempts no cleanup. The context never ends later than the timeout;
  it ends exactly at the timeout when the caller's context is alive until then, and with
  the caller's context when that ends earlier. The timeout diagnostic differs from the
  diagnostic of every engine error with another message.
\<close>

theorem delete_race:
  assumes "State_Get e = (diags, data)" and "\<not> HasError diags"
    and "name = ValueString (Name data)" and "path = ValueString (KubeconfigPath data)"
  shows "(\<forall>d err. Delete_returns e = Some (d, Some err) \<and> d < deleteCtx_Done e \<longrightarrow>
            Delete e fs =
              (diags @ [DiagError ''Error deleting Kind cluster''
                          (''Could not delete cluster '' @ name @ '': '' @ Error err)],
               \<lparr>files = fs, events = [Call_Delete name path, Blocked d]\<rparr>))
    \<and> (\<forall>d. Delete_returns e = Some (d, None) \<and> d < deleteCtx_Done e \<longrightarrow>
            fst (Delete e fs) = diags
            \<and> (\<exists>rest. events (snd (Delete e fs)) =
                   Call_Delete name path # Blocked d # LoadFromFile (RecommendedHomeFile e) # rest))
    \<and> (Delete_returns e = None \<or> (\<exists>d err. Delete_returns e = Some (d, err) \<and> deleteCtx_Done e < d) \<longrightarrow>
            Delete e fs =
              (diags @ [DiagError ''Error deleting Kind cluster''
                          (''Could not delete cluster '' @ name @ '': delete operation timed out after 5m0s'')],
               \<lparr>files = fs, events = [Call_Delete name path, Blocked (deleteCtx_Done e)]\<rparr>)
            \<and> HasError (fst (Delete e fs)))
    \<and> deleteCtx_Done e \<le> 300000000000
    \<and> (ctx_Done e = None \<or> (\<exists>c. ctx_Done e = Some c \<and> 300000000000 \<le> c) \<longrightarrow>
            deleteCtx_Done e = 300000000000)
    \<and> (\<forall>c. ctx_Done e = Some c \<and> c < 300000000000 \<longrightarrow> deleteCtx_Done e = c)
    \<and> (\<forall>err. Error err \<noteq> ''delete operation timed out after 5m0s'' \<longrightarrow>
            DiagError ''Error deleting Kind cluster'' (''Could not delete cluster '' @ name @ '': '' @ Error err)
              \<noteq> DiagError ''Error deleting Kind cluster''
                    (''Could not delete cluster '' @ name @ '': delete operation timed out after 5m0s''))"
proof -
  have engine_error: "\<forall>d err. Delete_returns e = Some (d, Some err) \<and> d < deleteCtx_Done e \<longrightarrow>
            Delete e fs =
              (diags @ [DiagError ''Error deleting Kind cluster''
                          (''Could not delete cluster '' @ name @ '': '' @ Error err)],
               \<lparr>files = fs, events = [Call_Delete name path, Blocked d]\<rparr>)"
  proof (intro allI impI)
    fix d err
    assume "Delete_returns e = Some (d, Some err) \<and> d < deleteCtx_Done e"
    then have sel: "select_delete e = (DeleteReturned (Some err), d)"
      by (simp add: select_delete_result_first)
    then have "(case delete_select e of DeleteReturned r \<Rightarrow> r | ContextDone \<Rightarrow> Some errDeleteTimeout) = Some err"
      by (simp add: delete_select_def)
    from Delete_failure [OF assms(1,2) this, of fs] sel
    show "Delete e fs =
              (diags @ [DiagError ''Error deleting Kind cluster''
                          (''Could not delete cluster '' @ name @ '': '' @ Error err)],
               \<lparr>files = fs, events = [Call_Delete name path, Blocked d]\<rparr>)"
      by (simp add: assms(3,4))
  qed
  have engine_ok: "\<forall>d. Delete_returns e = Some (d, None) \<and> d < deleteCtx_Done e \<longrightarrow>
            fst (Delete e fs) = diags
            \<and> (\<exists>rest. events (snd (Delete e fs)) =
                   Call_Delete name path # Blocked d # LoadFromFile (RecommendedHomeFile e) # rest)"
  proof (intro allI impI)
    fix d
    assume "Delete_returns e = Some (d, None) \<and> d < deleteCtx_Done e"
    then have sel: "select_delete e = (DeleteReturned None, d)"
      by (simp add: select_delete_result_first)
    then have ds: "delete_select e = DeleteReturned None"
      by (simp add: delete_select_def)
    have "fst (Delete e fs) = diags"
      by (simp add: Delete_success [OF assms(1,2) ds])
    moreover from Delete_success_events [OF assms(1,2) ds, of fs] sel
    have "\<exists>rest. events (snd (Delete e fs)) =
                   Call_Delete name path # Blocked d # LoadFromFile (RecommendedHomeFile e) # rest"
      by (simp add: assms(3,4))
    ultimately show "fst (Delete e fs) = diags
            \<and> (\<exists>rest. events (snd (Delete e fs)) =
                   Call_Delete name path # Blocked d # LoadFromFile (RecommendedHomeFile e) # rest)" ..
  qed
  have context_first: "Delete_returns e = None \<or> (\<exists>d err. Delete_returns e = Some (d, err) \<and> deleteCtx_Done e < d) \<longrightarrow>
            Delete e fs =
              (diags @ [DiagError ''Error deleting Kind cluster''
                          (''Could not delete cluster '' @ name @ '': delete operation timed out after 5m0s'')],
               \<lparr>files = fs, events = [Call_Delete name path, Blocked (deleteCtx_Done e)]\<rparr>)
            \<and> HasError (fst (Delete e fs))"
  proof
    assume "Delete_returns e = None \<or> (\<exists>d err. Delete_returns e = Some (d, err) \<and> deleteCtx_Done e < d)"
    then have sel: "select_delete e = (ContextDone, deleteCtx_Done e)"
      by (rule select_delete_context_first)
    then have "(case delete_select e of DeleteReturned r \<Rightarrow> r | ContextDone \<Rightarrow> Some errDeleteTimeout)
        = Some errDeleteTimeout"
      by (simp add: delete_select_def)
    from Delete_failure [OF assms(1,2) this, of fs] sel
    have D: "Delete e fs =
              (diags @ [DiagError ''Error deleting Kind cluster''
                          (''Could not delete cluster '' @ name @ '': delete operation timed out after 5m0s'')],
               \<lparr>files = fs, events = [Call_Delete name path, Blocked (deleteCtx_Done e)]\<rparr>)"
      by (simp add: assms(3,4) errDeleteTimeout_def)
    have "HasError (fst (Delete e fs))"
      unfolding D fst_conv by (rule HasError_append)
    with D show "Delete e fs =
              (diags @ [DiagError ''Error deleting Kind cluster''
                          (''Could not delete cluster '' @ name @ '': delete operation timed out after 5m0s'')],
               \<lparr>files = fs, events = [Call_Delete name path, Blocked (deleteCtx_Done e)]\<rparr>)
            \<and> HasError (fst (Delete e fs))" ..
  qed
  have bound: "deleteCtx_Done e \<le> 300000000000"
    by (rule deleteCtx_Done_cases)
  have alive: "ctx_Done e = None \<or> (\<exists>c. ctx_Done e = Some c \<and> 300000000000 \<le> c) \<longrightarrow>
            deleteCtx_Done e = 300000000000"
    by (rule impI) (rule deleteCtx_Done_cases)
  have ended: "\<forall>c. ctx_Done e = Some c \<and> c < 300000000000 \<longrightarrow> deleteCtx_Done e = c"
    by (simp add: deleteCtx_Done_cases)
  have differ: "\<forall>err. Error err \<noteq> ''delete operation timed out after 5m0s'' \<longrightarrow>
            DiagError ''Error deleting Kind cluster'' (''Could not delete cluster '' @ name @ '': '' @ Error err)
              \<noteq> DiagError ''Error deleting Kind cluster''
                    (''Could not delete cluster '' @ name @ '': delete operation timed out after 5m0s'')"
    by simp
  from engine_error engine_ok context_first bound alive ended differ show ?thesis
    by (intro conjI)
qed

theorem delete_race_witness:
  "Delete (example_env\<lparr>Delete_returns := None\<rparr>) example_files =
     ([DiagError ''Error deleting Kind cluster''
         ''Could not delete cluster test: delete operation timed out after 5m0s''],
      \<lparr>files = example_files, events = [Call_Delete ''test'' ''/work/test-config'', Blocked 300000000000]\<rparr>)
   \<and> Delete (example_env\<lparr>Delete_returns := Some (2000000000, Some (ErrorNew ''docker is not running''))\<rparr>)
        example_files =
     ([DiagError ''Error deleting Kind cluster'' ''Could not delete cluster test: docker is not running''],
      \<lparr>files = example_files, events = [Call_Delete ''test'' ''/work/test-config'', Blocked 2000000000]\<rparr>)
   \<and> fst (Delete example_env example_files) = []
   \<and> (\<exists>rest. events (snd (Delete example_env example_files)) =
         Call_Delete ''test'' ''/work/test-config'' # Blocked 3000000000
           # LoadFromFile ''/home/user/.kube/config'' # rest)"
proof -
  let ?data = "example_model\<lparr>KubeconfigPath := Known ''/work/test-config''\<rparr>"
  let ?e1 = "example_env\<lparr>Delete_returns := None\<rparr>"
  let ?e2 = "example_env\<lparr>Delete_returns := Some (2000000000, Some (ErrorNew ''docker is not running''))\<rparr>"
  have names: "''test'' = ValueString (Name ?data)" "''/work/test-config'' = ValueString (KubeconfigPath ?data)"
    by (simp_all add: example_model_def ValueString_def)
  have ok: "\<not> HasError []" by (simp add: HasError_def)
  have s1: "State_Get ?e1 = ([], ?data)" by (simp add: example_env_def)
  have s2: "State_Get ?e2 = ([], ?data)" by (simp add: example_env_def)
  have s3: "State_Get example_env = ([], ?data)" by (simp add: example_env_def)
  note T1 = delete_race [OF s1 ok names, of example_files]
  note T2 = delete_race [OF s2 ok names, of example_files]
  note T3 = delete_race [OF s3 ok names, of example_files]
  have never: "Delete_returns ?e1 = None
      \<or> (\<exists>d err. Delete_returns ?e1 = Some (d, err) \<and> deleteCtx_Done ?e1 < d)"
    by simp
  have alive: "ctx_Done ?e1 = None \<or> (\<exists>c. ctx_Done ?e1 = Some c \<and> 300000000000 \<le> c)"
    by (simp add: example_env_def)
  from T1 [THEN conjunct2, THEN conjunct2, THEN conjunct2, THEN conjunct2, THEN conjunct1, THEN mp, OF alive]
  have full: "deleteCtx_Done ?e1 = 300000000000" .
  from T1 [THEN conjunct2, THEN conjunct2, THEN conjunct1, THEN mp, OF never, THEN conjunct1]
  have first: "Delete ?e1 example_files =
     ([DiagError ''Error deleting Kind cluster''
         ''Could not delete cluster test: delete operation timed out after 5m0s''],
      \<lparr>files = example_files, events = [Call_Delete ''test'' ''/work/test-config'', Blocked 300000000000]\<rparr>)"
    by (simp add: full)
  have failed: "Delete_returns ?e2 = Some (2000000000, Some (ErrorNew ''docker is not running''))
      \<and> 2000000000 < deleteCtx_Done ?e2"
    by (simp add: example_env_def deleteCtx_Done_def defaultTimeout_def Minute_def Second_def)
  from T2 [THEN conjunct1, THEN spec, THEN spec, THEN mp, OF failed]
  have second: "Delete ?e2 example_files =
     ([DiagError ''Error deleting Kind cluster'' ''Could not delete cluster test: docker is not running''],
      \<lparr>files = example_files, events = [Call_Delete ''test'' ''/work/test-config'', Blocked 2000000000]\<rparr>)"
    by simp
  have returned: "Delete_returns example_env = Some (3000000000, None) \<and> 3000000000 < deleteCtx_Done example_env"
    by (simp add: example_env_def deleteCtx_Done_def defaultTimeout_def Minute_def Second_def)
  from T3 [THEN conjunct2, THEN conjunct1, THEN spec, THEN mp, OF returned]
  have third: "fst (Delete example_env example_files) = []
      \<and> (\<exists>rest. events (snd (Delete example_env example_files)) =
            Call_Delete ''test'' ''/work/test-config'' # Blocked 3000000000
              # LoadFromFile ''/home/user/.kube/config'' # rest)"
    by (simp add: example_env_def)
  from first second third show ?thesis by (intro conjI) (erule conjunct1 conjunct2 | assumption)+
qed

text \<open>
  The claim as first stated fails where the caller's context ends before the timeout:
  the engine's deletion never returns, the caller's context ends after one second
  (1000000000 ns), and \<open>Delete\<close> reports the error \<open>timed out after 5m0s\<close> after that one
  second, not after five minutes. It also fails where the engine itself returns, after
  that second, an error with the message of the timeout: the diagnostics are the same.
\<close>

theorem delete_timeout_early:
  "Delete (example_env\<lparr>Delete_returns := None, ctx_Done := Some 1000000000\<rparr>) example_files =
     ([DiagError ''Error deleting Kind cluster''
         ''Could not delete cluster test: delete operation timed out after 5m0s''],
      \<lparr>files = example_files, events = [Call_Delete ''test'' ''/work/test-config'', Blocked 1000000000]\<rparr>)
   \<and> defaultTimeout = 300000000000
   \<and> fst (Delete (example_env\<lparr>Delete_returns :=
                    Some (1000000000, Some (ErrorNew ''delete operation timed out after 5m0s''))\<rparr>) example_files)
       = [DiagError ''Error deleting Kind cluster''
            ''Could not delete cluster test: delete operation timed out after 5m0s'']"
  by (simp add: Delete_def Let_def delete_select_def select_delete_def deleteCtx_Done_def
        defaultTimeout_def Minute_def Second_def errDeleteTimeout_def
        example_env_def example_model_def HasError_def ValueString_def)

end
